theory Spec2Isabelle
  imports Complex_Main "HOL-Library.AList" "HOL-Library.Option_ord"
begin

section \<open>Data model\<close>

text \<open>
  A triple is a row of a three-column table with the columns \<open>subject\<close>, \<open>relation\<close>,
  \<open>object\<close>, in this order. Before indexing every cell is a string, afterwards a Python
  integer. A vocabulary is the dictionary obtained from a one-column data frame whose
  index holds the strings; it is kept as an association list in insertion order.
\<close>

type_synonym str_triple = "string \<times> string \<times> string"
type_synonym idx_triple = "int \<times> int \<times> int"
type_synonym str_table = "str_triple list"
type_synonym idx_table = "idx_triple list"
type_synonym vocab = "(string \<times> int) list"

datatype error =
    TypeError
  | AssertionError
  | AttributeError
  | KeyError
  | IndexError
  | FileNotFoundError
  | ArtifactError
  | MissingTrainSplit

fun subject :: "'a \<times> 'b \<times> 'c \<Rightarrow> 'a" where
  "subject (s, p, o') = s"

fun relation :: "'a \<times> 'b \<times> 'c \<Rightarrow> 'b" where
  "relation (s, p, o') = p"

fun object :: "'a \<times> 'b \<times> 'c \<Rightarrow> 'c" where
  "object (s, p, o') = o'"

text \<open>Python truthiness of a flag whose default is \<open>None\<close>.\<close>

fun truthy :: "bool option \<Rightarrow> bool" where
  "truthy None = False"
| "truthy (Some b) = b"

section \<open>Vocabulary construction\<close>

subsection \<open>The pandas and numpy primitives used by the builder\<close>

text \<open>
  \<open>pd.unique\<close> returns the distinct values of a sequence in the order of their first
  appearance; it walks the sequence with a table of the values already seen.
\<close>

fun unique_from :: "'a list \<Rightarrow> 'a list \<Rightarrow> 'a list" where
  "unique_from seen [] = []"
| "unique_from seen (x # xs) =
     (if x \<in> set seen then unique_from seen xs else x # unique_from (x # seen) xs)"

definition pd_unique :: "'a list \<Rightarrow> 'a list" where
  "pd_unique xs = unique_from [] xs"

text \<open>The position of the first occurrence of a value (the length when there is none).\<close>

fun first_index :: "'a \<Rightarrow> 'a list \<Rightarrow> nat" where
  "first_index a [] = 0"
| "first_index a (x # xs) = (if x = a then 0 else Suc (first_index a xs))"

text \<open>
  \<open>values.ravel('K')\<close> flattens the two-column array of subjects and objects in the
  order in which its cells lie in memory. numpy leaves that order to the layout of the
  array: row by row for a C-contiguous array, column by column for a Fortran-contiguous
  one (the layout pandas gives the values of a single-block frame). Both are modelled.
\<close>

datatype mem_order = C_order | F_order

fun ravel_K :: "mem_order \<Rightarrow> ('a \<times> 'a) list \<Rightarrow> 'a list" where
  "ravel_K C_order rows = concat (map (\<lambda>(s, o'). [s, o']) rows)"
| "ravel_K F_order rows = map fst rows @ map snd rows"

text \<open>\<open>np.arange(n)\<close> and the frame \<open>pd.DataFrame(data=np.arange(len(l)), index=l)\<close>.\<close>

definition arange :: "nat \<Rightarrow> int list" where
  "arange n = map int [0..<n]"

definition to_frame :: "string list \<Rightarrow> vocab" where
  "to_frame ordered_list = zip ordered_list (arange (length ordered_list))"

text \<open>
  \<open>DataFrame.to_dict()[column]\<close>: a Python dictionary from the index to the column. A
  key that occurs again keeps its place and takes the later value.
\<close>

definition to_dict :: "vocab \<Rightarrow> vocab" where
  "to_dict df = fold (\<lambda>(k, v). AList.update k v) df []"

text \<open>
  \<open>Series.value_counts()\<close>: every value that occurs, with the number of its
  occurrences. pandas orders the result by count; only membership is used below, so
  the order of first appearance is kept.
\<close>

definition value_counts :: "'a list \<Rightarrow> ('a \<times> nat) list" where
  "value_counts xs = map (\<lambda>x. (x, count_list xs x)) (pd_unique xs)"

subsection \<open>Frequency pruning\<close>

text \<open>
  \<open>KG.remove_triples_from_train_with_condition\<close>: with a threshold, the strings whose
  count in the training table is at most the threshold are collected (entities over
  subjects and objects together, relations over the relation column), and the training
  rows naming one of them are dropped. The assertion on the threshold is a branch.
\<close>

definition low_frequency :: "int \<Rightarrow> ('a \<times> nat) list \<Rightarrow> 'a list" where
  "low_frequency t freq = map fst (filter (\<lambda>(x, c). int c \<le> t) freq)"

definition remove_triples_from_train_with_condition ::
  "int option \<Rightarrow> str_table \<Rightarrow> error + str_table" where
  "remove_triples_from_train_with_condition min_freq_for_vocab train_set =
     (case min_freq_for_vocab of
        None \<Rightarrow> Inr train_set
      | Some t \<Rightarrow>
          if \<not> t > 0 then Inl AssertionError
          else
            let entity_frequency = value_counts (map subject train_set @ map object train_set);
                relation_frequency = value_counts (map relation train_set);
                low_frequency_entities = low_frequency t entity_frequency;
                low_frequency_relation = low_frequency t relation_frequency;
                train_set = filter (\<lambda>r. subject r \<notin> set low_frequency_entities) train_set;
                train_set = filter (\<lambda>r. object r \<notin> set low_frequency_entities) train_set;
                train_set = filter (\<lambda>r. relation r \<notin> set low_frequency_relation) train_set
            in Inr train_set)"

subsection \<open>Sequential vocabulary construction\<close>

text \<open>
  The persistent store: a file system from paths to the tables written there.
\<close>

datatype artifact =
    Vocab_art vocab
  | Str_art str_table
  | Idx_art idx_table

type_synonym files = "string \<Rightarrow> artifact option"

text \<open>
  \<open>x.to_parquet(self.path_for_serialization + name)\<close>, as the vocabulary builder calls
  it, without a guard: the concatenation of \<open>None\<close> and a string raises \<open>TypeError\<close>.
\<close>

definition to_parquet_unguarded ::
  "string option \<Rightarrow> string \<Rightarrow> artifact \<Rightarrow> files \<Rightarrow> error + files" where
  "to_parquet_unguarded path_for_serialization name art fs =
     (case path_for_serialization of
        None \<Rightarrow> Inl TypeError
      | Some p \<Rightarrow> Inr (fs(p @ name \<mapsto> art)))"

text \<open>The guarded form \<open>if path_for_serialization is not None: x.to_parquet(...)\<close>.\<close>

definition to_parquet_guarded ::
  "string option \<Rightarrow> string \<Rightarrow> artifact \<Rightarrow> files \<Rightarrow> files" where
  "to_parquet_guarded path_for_serialization name art fs =
     (case path_for_serialization of
        None \<Rightarrow> fs
      | Some p \<Rightarrow> fs(p @ name \<mapsto> art))"

text \<open>The rows of the splits that are present, in the order train, valid, test.\<close>

definition present :: "'a list option \<Rightarrow> 'a list" where
  "present x = (case x of None \<Rightarrow> [] | Some rows \<Rightarrow> rows)"

definition concat_splits :: "'a list \<Rightarrow> 'a list option \<Rightarrow> 'a list option \<Rightarrow> 'a list" where
  "concat_splits train_set valid_set test_set = train_set @ present valid_set @ present test_set"

definition entity_ordered_list :: "mem_order \<Rightarrow> str_table \<Rightarrow> string list" where
  "entity_ordered_list layout df_str_kg =
     pd_unique (ravel_K layout (map (\<lambda>r. (subject r, object r)) df_str_kg))"

definition relation_ordered_list :: "str_table \<Rightarrow> string list" where
  "relation_ordered_list df_str_kg = pd_unique (map relation df_str_kg)"

text \<open>
  \<open>KG.sequential_vocabulary_construction\<close>: prune the training table, concatenate the
  present splits, number the distinct entities and the distinct relations, and write
  both frames. The result is the pruned training table, the two frames and the store.
\<close>

definition sequential_vocabulary_construction ::
  "mem_order \<Rightarrow> string option \<Rightarrow> int option \<Rightarrow> str_table \<Rightarrow> str_table option \<Rightarrow>
   str_table option \<Rightarrow> files \<Rightarrow> error + (str_table \<times> vocab \<times> vocab \<times> files)" where
  "sequential_vocabulary_construction layout path_for_serialization min_freq_for_vocab
       train_set valid_set test_set fs =
     (case remove_triples_from_train_with_condition min_freq_for_vocab train_set of
        Inl e \<Rightarrow> Inl e
      | Inr train_set \<Rightarrow>
          let df_str_kg = concat_splits train_set valid_set test_set;
              entity_to_idx = to_frame (entity_ordered_list layout df_str_kg)
          in (case to_parquet_unguarded path_for_serialization ''/entity_to_idx.gzip''
                     (Vocab_art entity_to_idx) fs of
                Inl e \<Rightarrow> Inl e
              | Inr fs \<Rightarrow>
                  let relation_to_idx = to_frame (relation_ordered_list df_str_kg)
                  in (case to_parquet_unguarded path_for_serialization
                             ''/relation_to_idx.gzip'' (Vocab_art relation_to_idx) fs of
                        Inl e \<Rightarrow> Inl e
                      | Inr fs \<Rightarrow> Inr (train_set, entity_to_idx, relation_to_idx, fs))))"

section \<open>The knowledge graph constructor\<close>

subsection \<open>Configuration and collaborators\<close>

text \<open>
  The arguments of \<open>KG.__init__\<close>; each defaults to \<open>None\<close>. The two vocabulary
  arguments are data frames when supplied.
\<close>

record config =
  data_dir :: "string option"
  deserialize_flag :: "string option"
  add_reciprical :: "bool option"
  eval_model :: "bool option"
  read_only_few :: "int option"
  sample_triples_ratio :: "real option"
  path_for_serialization :: "string option"
  add_noise_rate :: "real option"
  min_freq_for_vocab :: "int option"
  entity_to_idx_arg :: "vocab option"
  relation_to_idx_arg :: "vocab option"

text \<open>
  The functions imported from \<open>static_funcs\<close> whose results the constructor only
  passes on are parameters: the loader (with the raw files it reads), the two
  augmentations and the indexer. \<open>layout\<close> is the memory order of the frame's
  values, \<open>disk\<close> the store before the run.
\<close>

record env =
  load_data_parallel :: "string \<Rightarrow> int option \<Rightarrow> real option \<Rightarrow> str_table option"
  create_recipriocal_triples_from_dask :: "str_table \<Rightarrow> str_table"
  add_noisy_triples :: "str_table \<Rightarrow> real \<Rightarrow> str_table"
  index_triples :: "str_table \<Rightarrow> vocab \<Rightarrow> vocab \<Rightarrow> error + idx_table"
  layout :: mem_order
  disk :: files

subsection \<open>Helpers modelled from the specification\<close>

text \<open>
  Modelled from the spec: \<open>dataset_sanity_checking\<close> of \<open>sanity_checkers\<close> is not among
  the sources. The specification: given an indexed triple set and the bounds, it asserts
  that every subject and object id is in \<open>[0, num_entities)\<close> and every relation id in
  \<open>[0, num_relations)\<close>; a violation is fatal.
\<close>

definition in_bounds :: "int \<Rightarrow> int \<Rightarrow> idx_triple \<Rightarrow> bool" where
  "in_bounds ne nr r \<longleftrightarrow>
     0 \<le> subject r \<and> subject r < ne \<and> 0 \<le> object r \<and> object r < ne \<and>
     0 \<le> relation r \<and> relation r < nr"

definition dataset_sanity_checking :: "idx_table \<Rightarrow> int \<Rightarrow> int \<Rightarrow> error + unit" where
  "dataset_sanity_checking rows ne nr =
     (if list_all (in_bounds ne nr) rows then Inr () else Inl AssertionError)"

text \<open>
  Modelled from the spec: \<open>numpy_data_type_changer\<close> of \<open>static_funcs\<close> is not among the
  sources. The specification: the numeric columns are downcast to the smallest unsigned
  integer width that can represent \<open>num - 1\<close>. A cast to an unsigned width keeps the
  value modulo two to that width; a table no unsigned width fits is left as it is.
\<close>

definition cast_unsigned :: "nat \<Rightarrow> idx_table \<Rightarrow> idx_table" where
  "cast_unsigned w rows = map (\<lambda>(s, p, o'). (s mod 2 ^ w, p mod 2 ^ w, o' mod 2 ^ w)) rows"

definition numpy_data_type_changer :: "idx_table \<Rightarrow> int \<Rightarrow> idx_table" where
  "numpy_data_type_changer rows num =
     (if num \<le> 2 ^ 8 then cast_unsigned 8 rows
      else if num \<le> 2 ^ 16 then cast_unsigned 16 rows
      else if num \<le> 2 ^ 32 then cast_unsigned 32 rows
      else if num \<le> 2 ^ 64 then cast_unsigned 64 rows
      else rows)"

text \<open>
  Modelled from the spec: \<open>get_er_vocab\<close>, \<open>get_re_vocab\<close>, \<open>get_ee_vocab\<close> and
  \<open>create_constraints\<close> of \<open>static_funcs\<close> are not among the sources. The specification:
  \<open>er_vocab\<close> maps (subject, relation) to the objects seen with that pair, \<open>re_vocab\<close>
  maps (relation, object) to the subjects seen with it, \<open>ee_vocab\<close> maps
  (subject, object) to the relations seen with it; the constraints give, per relation,
  the subjects seen in its domain and the objects seen in its range.
\<close>

definition get_er_vocab :: "idx_table \<Rightarrow> int \<times> int \<Rightarrow> int list" where
  "get_er_vocab data = (\<lambda>(s, p). map object (filter (\<lambda>r. subject r = s \<and> relation r = p) data))"

definition get_re_vocab :: "idx_table \<Rightarrow> int \<times> int \<Rightarrow> int list" where
  "get_re_vocab data = (\<lambda>(p, o'). map subject (filter (\<lambda>r. relation r = p \<and> object r = o') data))"

definition get_ee_vocab :: "idx_table \<Rightarrow> int \<times> int \<Rightarrow> int list" where
  "get_ee_vocab data = (\<lambda>(s, o'). map relation (filter (\<lambda>r. subject r = s \<and> object r = o') data))"

definition create_constraints :: "idx_table \<Rightarrow> (int \<Rightarrow> int list) \<times> (int \<Rightarrow> int list)" where
  "create_constraints data =
     (\<lambda>p. map subject (filter (\<lambda>r. relation r = p) data),
      \<lambda>p. map object (filter (\<lambda>r. relation r = p) data))"

subsection \<open>Loading and augmentation\<close>

text \<open>
  \<open>KG.load_read_process\<close>. The path of each split is \<open>data_dir\<close> followed by its name;
  with \<open>data_dir = None\<close> the concatenation raises. The constructor uses the training
  table unconditionally (lines 226 to 230 and 127), so a loader that finds no training
  data ends the run; the model reports it here, where the table is loaded.
\<close>

definition load_read_process ::
  "env \<Rightarrow> config \<Rightarrow> error + (str_table \<times> str_table option \<times> str_table option)" where
  "load_read_process e cfg =
     (case data_dir cfg of
        None \<Rightarrow> Inl TypeError
      | Some d \<Rightarrow>
          (case load_data_parallel e (d @ ''/train'') (read_only_few cfg) (sample_triples_ratio cfg) of
             None \<Rightarrow> Inl MissingTrainSplit
           | Some train \<Rightarrow>
               Inr (train,
                    load_data_parallel e (d @ ''/valid'') None None,
                    load_data_parallel e (d @ ''/test'') None None)))"

text \<open>\<open>KG.apply_reciprical_or_noise\<close>.\<close>

definition apply_reciprical_or_noise ::
  "env \<Rightarrow> config \<Rightarrow> str_table \<times> str_table option \<times> str_table option \<Rightarrow>
   str_table \<times> str_table option \<times> str_table option" where
  "apply_reciprical_or_noise e cfg splits =
     (case splits of (train, valid, test) \<Rightarrow>
        let (train, valid, test) =
              (if truthy (add_reciprical cfg) \<and> truthy (eval_model cfg)
               then (create_recipriocal_triples_from_dask e train,
                     map_option (create_recipriocal_triples_from_dask e) valid,
                     map_option (create_recipriocal_triples_from_dask e) test)
               else (train, valid, test));
            train = (case add_noise_rate cfg of
                       None \<Rightarrow> train
                     | Some rate \<Rightarrow> add_noisy_triples e train rate)
        in (train, valid, test))"

subsection \<open>Indexing, checking and the evaluation maps\<close>

record kg =
  num_entities :: int
  num_relations :: int
  entity_to_idx :: vocab
  relation_to_idx :: vocab
  train_set :: idx_table
  valid_set :: "idx_table option"
  test_set :: "idx_table option"
  er_vocab :: "(int \<times> int \<Rightarrow> int list) option"
  re_vocab :: "(int \<times> int \<Rightarrow> int list) option"
  ee_vocab :: "(int \<times> int \<Rightarrow> int list) option"
  domain_constraints_per_rel :: "(int \<Rightarrow> int list) option"
  range_constraints_per_rel :: "(int \<Rightarrow> int list) option"
  storage :: files

text \<open>
  Lines 84 to 141: the vocabularies and the indexed training table. Without supplied
  vocabularies they are built in the run (with pruning) and the indexed table is
  written when a path is configured; otherwise the supplied frames are converted, and
  a missing one fails at \<open>to_dict\<close>. The result is the indexed training table, the two
  dictionaries, the pruned string table and the store.
\<close>

definition index_train ::
  "env \<Rightarrow> config \<Rightarrow> str_table \<Rightarrow> str_table option \<Rightarrow> str_table option \<Rightarrow>
   error + (idx_table \<times> vocab \<times> vocab \<times> files)" where
  "index_train e cfg train valid test =
     (if entity_to_idx_arg cfg = None \<and> relation_to_idx_arg cfg = None then
        (case sequential_vocabulary_construction (layout e) (path_for_serialization cfg)
                (min_freq_for_vocab cfg) train valid test (disk e) of
           Inl err \<Rightarrow> Inl err
         | Inr (train, entity_frame, relation_frame, fs) \<Rightarrow>
             let e2i = to_dict entity_frame; r2i = to_dict relation_frame
             in (case index_triples e train e2i r2i of
                   Inl err \<Rightarrow> Inl err
                 | Inr ix \<Rightarrow>
                     Inr (ix, e2i, r2i,
                          to_parquet_guarded (path_for_serialization cfg) ''/idx_train_df.gzip''
                            (Idx_art ix) fs)))
      else
        (case entity_to_idx_arg cfg of
           None \<Rightarrow> Inl AttributeError
         | Some entity_frame \<Rightarrow>
             (case relation_to_idx_arg cfg of
                None \<Rightarrow> Inl AttributeError
              | Some relation_frame \<Rightarrow>
                  let e2i = to_dict entity_frame; r2i = to_dict relation_frame
                  in (case index_triples e train e2i r2i of
                        Inl err \<Rightarrow> Inl err
                      | Inr ix \<Rightarrow> Inr (ix, e2i, r2i, disk e)))))"

text \<open>
  Lines 148 to 165 for the validation split and 166 to 183 for the test split, which
  differ in the file names only: write the string table, index it, write the indexed
  table, check it, then change its type.
\<close>

definition index_split ::
  "env \<Rightarrow> string option \<Rightarrow> string \<Rightarrow> string \<Rightarrow> vocab \<Rightarrow> vocab \<Rightarrow> int \<Rightarrow> int \<Rightarrow>
   str_table option \<Rightarrow> files \<Rightarrow> error + (idx_table option \<times> files)" where
  "index_split e path raw_name idx_name e2i r2i ne nr split fs =
     (case split of
        None \<Rightarrow> Inr (None, fs)
      | Some rows \<Rightarrow>
          let fs = to_parquet_guarded path raw_name (Str_art rows) fs
          in (case index_triples e rows e2i r2i of
                Inl err \<Rightarrow> Inl err
              | Inr ix \<Rightarrow>
                  let fs = to_parquet_guarded path idx_name (Idx_art ix) fs
                  in (case dataset_sanity_checking ix ne nr of
                        Inl err \<Rightarrow> Inl err
                      | Inr u \<Rightarrow> Inr (Some (numpy_data_type_changer ix (max ne nr)), fs))))"

text \<open>
  Lines 184 to 197 and 201 to 214: the table the evaluation maps are built from, and
  the finished object. The maps exist only when evaluation is requested.
\<close>

definition eval_data :: "idx_table \<Rightarrow> idx_table option \<Rightarrow> idx_table option \<Rightarrow> idx_table" where
  "eval_data train valid test =
     (case valid of
        None \<Rightarrow> train
      | Some v \<Rightarrow> (case test of None \<Rightarrow> train | Some t \<Rightarrow> train @ v @ t))"

definition finish ::
  "config \<Rightarrow> int \<Rightarrow> int \<Rightarrow> vocab \<Rightarrow> vocab \<Rightarrow> idx_table \<Rightarrow> idx_table option \<Rightarrow>
   idx_table option \<Rightarrow> files \<Rightarrow> kg" where
  "finish cfg ne nr e2i r2i train valid test fs =
     (let ev = truthy (eval_model cfg); data = eval_data train valid test
      in \<lparr> num_entities = ne, num_relations = nr,
           entity_to_idx = e2i, relation_to_idx = r2i,
           train_set = train, valid_set = valid, test_set = test,
           er_vocab = (if ev then Some (get_er_vocab data) else None),
           re_vocab = (if ev then Some (get_re_vocab data) else None),
           ee_vocab = (if ev then Some (get_ee_vocab data) else None),
           domain_constraints_per_rel = (if ev then Some (fst (create_constraints train)) else None),
           range_constraints_per_rel = (if ev then Some (snd (create_constraints train)) else None),
           storage = fs \<rparr>)"

text \<open>Lines 78 to 197: the run that loads and indexes raw data.\<close>

definition preprocess :: "env \<Rightarrow> config \<Rightarrow> error + kg" where
  "preprocess e cfg =
     (case load_read_process e cfg of
        Inl err \<Rightarrow> Inl err
      | Inr loaded \<Rightarrow>
          (case apply_reciprical_or_noise e cfg loaded of (train, valid, test) \<Rightarrow>
             (case index_train e cfg train valid test of
                Inl err \<Rightarrow> Inl err
              | Inr (ix, e2i, r2i, fs) \<Rightarrow>
                  let ne = int (length e2i); nr = int (length r2i);
                      train_ix = numpy_data_type_changer ix (max ne nr)
                  in (case dataset_sanity_checking train_ix ne nr of
                        Inl err \<Rightarrow> Inl err
                      | Inr u \<Rightarrow>
                          (case index_split e (path_for_serialization cfg) ''/valid_df.gzip''
                                  ''/idx_valid_df.gzip'' e2i r2i ne nr valid fs of
                             Inl err \<Rightarrow> Inl err
                           | Inr (valid_ix, fs) \<Rightarrow>
                               (case index_split e (path_for_serialization cfg) ''/test_df.gzip''
                                       ''/idx_test_df.gzip'' e2i r2i ne nr test fs of
                                  Inl err \<Rightarrow> Inl err
                                | Inr (test_ix, fs) \<Rightarrow>
                                    Inr (finish cfg ne nr e2i r2i train_ix valid_ix test_ix fs)))))))"

subsection \<open>Deserialization\<close>

text \<open>
  Reading a stored table: a path with no file raises \<open>FileNotFoundError\<close>; a file that
  holds a table of another kind is an error of its own.
\<close>

definition read_vocab :: "files \<Rightarrow> string \<Rightarrow> error + vocab" where
  "read_vocab fs path =
     (case fs path of
        None \<Rightarrow> Inl FileNotFoundError
      | Some (Vocab_art v) \<Rightarrow> Inr v
      | Some _ \<Rightarrow> Inl ArtifactError)"

definition read_idx :: "files \<Rightarrow> string \<Rightarrow> error + idx_table" where
  "read_idx fs path =
     (case fs path of
        None \<Rightarrow> Inl FileNotFoundError
      | Some (Idx_art t) \<Rightarrow> Inr t
      | Some _ \<Rightarrow> Inl ArtifactError)"

text \<open>\<open>try: ... except FileNotFoundError: self.split = None\<close>.\<close>

definition read_optional :: "files \<Rightarrow> string \<Rightarrow> error + idx_table option" where
  "read_optional fs path =
     (case read_idx fs path of
        Inr t \<Rightarrow> Inr (Some t)
      | Inl err \<Rightarrow> (if err = FileNotFoundError then Inr None else Inl err))"

text \<open>
  \<open>KG.deserialize\<close>: the counts are the lengths of the two stored frames, taken before
  the frames are converted to dictionaries.
\<close>

definition deserialize ::
  "files \<Rightarrow> string \<Rightarrow>
   error + (int \<times> int \<times> vocab \<times> vocab \<times> idx_table \<times> idx_table option \<times> idx_table option)" where
  "deserialize fs storage_path =
     (case read_vocab fs (storage_path @ ''/entity_to_idx.gzip'') of
        Inl err \<Rightarrow> Inl err
      | Inr entity_frame \<Rightarrow>
          (case read_vocab fs (storage_path @ ''/relation_to_idx.gzip'') of
             Inl err \<Rightarrow> Inl err
           | Inr relation_frame \<Rightarrow>
               (case read_idx fs (storage_path @ ''/idx_train_df.gzip'') of
                  Inl err \<Rightarrow> Inl err
                | Inr train \<Rightarrow>
                    (case read_optional fs (storage_path @ ''/idx_valid_df.gzip'') of
                       Inl err \<Rightarrow> Inl err
                     | Inr valid \<Rightarrow>
                         (case read_optional fs (storage_path @ ''/idx_test_df.gzip'') of
                            Inl err \<Rightarrow> Inl err
                          | Inr test \<Rightarrow>
                              Inr (int (length entity_frame), int (length relation_frame),
                                   to_dict entity_frame, to_dict relation_frame,
                                   train, valid, test))))))"

text \<open>\<open>KG.__init__\<close>.\<close>

definition KG_init :: "env \<Rightarrow> config \<Rightarrow> error + kg" where
  "KG_init e cfg =
     (case deserialize_flag cfg of
        None \<Rightarrow> preprocess e cfg
      | Some storage_path \<Rightarrow>
          (case deserialize (disk e) storage_path of
             Inl err \<Rightarrow> Inl err
           | Inr (ne, nr, e2i, r2i, train, valid, test) \<Rightarrow>
               Inr (finish cfg ne nr e2i r2i train valid test (disk e))))"

section \<open>Filtered ranking in the executor\<close>

text \<open>
  The scores of all candidates are a list indexed by the candidate's id. The scoring
  model is a collaborator, so its scores are given. \<open>predictions[filt] = v\<close> stores
  \<open>v\<close> at every listed position, and an index outside the tensor raises.
\<close>

definition put_all :: "'a list \<Rightarrow> nat list \<Rightarrow> 'a \<Rightarrow> 'a list" where
  "put_all xs filt v = fold (\<lambda>i ys. ys[i := v]) filt xs"

text \<open>\<open>np.where(sort_idxs == x)[0][0]\<close>: the first position of \<open>x\<close>, or an error.\<close>

definition np_where_first :: "'a list \<Rightarrow> 'a \<Rightarrow> error + nat" where
  "np_where_first sort_idxs x =
     (if x \<in> set sort_idxs then Inr (first_index x sort_idxs) else Inl IndexError)"

text \<open>
  \<open>torch.sort(predictions, descending=True)\<close> returns the candidate ids ordered by
  falling score and leaves the order of equal scores open. An admissible result is any
  arrangement of all positions along which the scores do not rise; the sort itself is a
  parameter of the ranking. \<open>argsort_desc\<close> is one such sort, by insertion.
\<close>

definition is_sorted_desc :: "'a::linorder list \<Rightarrow> nat list \<Rightarrow> bool" where
  "is_sorted_desc xs idxs \<longleftrightarrow>
     distinct idxs \<and> set idxs = {0..<length xs} \<and>
     sorted_wrt (\<lambda>i j. xs ! j \<le> xs ! i) idxs"

fun insert_desc :: "'a::linorder list \<Rightarrow> nat \<Rightarrow> nat list \<Rightarrow> nat list" where
  "insert_desc xs i [] = [i]"
| "insert_desc xs i (j # js) =
     (if xs ! j \<le> xs ! i then i # j # js else j # insert_desc xs i js)"

definition argsort_desc :: "'a::linorder list \<Rightarrow> nat list" where
  "argsort_desc xs = foldr (insert_desc xs) [0..<length xs] []"

text \<open>
  The steps shared by lines 275 to 282, 285 to 292 (\<open>evaluate_lp\<close>) and 224 to 232
  (\<open>evaluate_lp_k_vs_all\<close>): keep the target's score, overwrite the scores of the
  filtered candidates with \<open>low\<close>, restore the target's score, sort, and find the
  target. The result is the zero-based rank.
\<close>

definition filtered_rank ::
  "('a list \<Rightarrow> nat list) \<Rightarrow> 'a \<Rightarrow> 'a::linorder list \<Rightarrow> nat list \<Rightarrow> nat \<Rightarrow> error + nat" where
  "filtered_rank torch_sort low predictions filt target =
     (if \<not> target < length predictions then Inl IndexError
      else
        let target_value = predictions ! target
        in if \<not> list_all (\<lambda>i. i < length predictions) filt then Inl IndexError
           else
             let predictions = (put_all predictions filt low)[target := target_value];
                 sort_idxs = torch_sort predictions
             in np_where_first sort_idxs target)"

text \<open>
  \<open>evaluate_lp\<close>, lines 255 to 296, for one triple: the filtered scores are set to
  \<open>-np.Inf\<close>. A score is a real number or minus infinity; \<open>None\<close> is minus infinity,
  below every \<open>Some x\<close>. The result is the pair of the head rank and the tail rank,
  each counted from one.
\<close>

definition evaluate_lp_ranks ::
  "(real option list \<Rightarrow> nat list) \<Rightarrow> (nat \<Rightarrow> nat \<Rightarrow> real list) \<Rightarrow> (nat \<Rightarrow> nat \<Rightarrow> real list) \<Rightarrow>
   (nat \<times> nat \<Rightarrow> nat list) \<Rightarrow> (nat \<times> nat \<Rightarrow> nat list) \<Rightarrow> nat \<times> nat \<times> nat \<Rightarrow>
   error + (nat \<times> nat)" where
  "evaluate_lp_ranks torch_sort forward_tails forward_heads er po data_point =
     (case data_point of (s, p, o') \<Rightarrow>
        let predictions_tails = map Some (forward_tails s p);
            predictions_heads = map Some (forward_heads p o')
        in (case filtered_rank torch_sort None predictions_tails (er (s, p)) o' of
              Inl err \<Rightarrow> Inl err
            | Inr filt_tail_entity_rank \<Rightarrow>
                (case filtered_rank torch_sort None predictions_heads (po (p, o')) s of
                   Inl err \<Rightarrow> Inl err
                 | Inr filt_head_entity_rank \<Rightarrow>
                     Inr (filt_head_entity_rank + 1, filt_tail_entity_rank + 1))))"

text \<open>
  \<open>evaluate_lp_k_vs_all\<close>, lines 223 to 233, for one row of a batch: the filtered
  scores are set to \<open>0.0\<close>. The result is the rank appended to \<open>ranks\<close>.
\<close>

definition k_vs_all_rank ::
  "(real list \<Rightarrow> nat list) \<Rightarrow> real list \<Rightarrow> (nat \<times> nat \<Rightarrow> nat list) \<Rightarrow> nat \<times> nat \<times> nat \<Rightarrow>
   error + nat" where
  "k_vs_all_rank torch_sort predictions_j er row =
     (case row of (s, p, o') \<Rightarrow>
        (case filtered_rank torch_sort 0 predictions_j (er (s, p)) o' of
           Inl err \<Rightarrow> Inl err
         | Inr rank \<Rightarrow> Inr (rank + 1)))"

text \<open>
  What the filtered protocol asks for: the position, counted from one, of the target
  among the candidates that are not filtered out, as the sort arranged them.
\<close>

definition kept :: "nat list \<Rightarrow> nat \<Rightarrow> nat \<Rightarrow> bool" where
  "kept filt target c \<longleftrightarrow> c \<notin> set filt \<or> c = target"

definition position_among_kept :: "nat list \<Rightarrow> nat list \<Rightarrow> nat \<Rightarrow> nat" where
  "position_among_kept sort_idxs filt target =
     first_index target (filter (kept filt target) sort_idxs) + 1"

section \<open>The executor's configuration check\<close>

record args =
  model :: string
  scoring_technique :: string
  negative_sample_ratio :: int
  batch_size :: int
  num_folds_for_cv :: int
  path_dataset_folder :: string

text \<open>
  The work of a run, in the order in which it starts. The data set, the trainer and the
  training procedures are collaborators; the run records when each is entered.
\<close>

datatype event =
    Dataset_loaded
  | Experiment_folder_created
  | Trainer_created
  | Trained_negative_sampling
  | Trained
  | Cross_validated

datatype exec_error =
    ConfigurationError string
  | ValueError string

text \<open>
  Modelled from the spec: \<open>sanity_checking_with_arguments\<close> of \<open>static_funcs\<close> is not
  among the sources. The specification: a configuration error, such as an invalid
  scoring technique name, fails fast with a descriptive message before any expensive
  work begins. The recognised names are those \<open>train_and_eval\<close> dispatches on.
\<close>

definition sanity_checking_with_arguments :: "args \<Rightarrow> exec_error + unit" where
  "sanity_checking_with_arguments a =
     (if scoring_technique a = ''NegSample'' \<or> scoring_technique a = ''KvsAll'' then Inr ()
      else Inl (ConfigurationError (''Invalid training strategy => '' @ scoring_technique a)))"

record execute =
  exec_args :: args
  exec_scoring_technique :: string
  neg_ratio :: "int option"
  valid_test_available :: bool
  events :: "event list"

text \<open>
  \<open>Execute.__init__\<close>. \<open>preprocesses_input_args\<close> is a parameter; the data set gives
  the length of its training set and whether validation and test sets are available.
  An error carries the events that had happened when it was raised.
\<close>

definition Execute_init ::
  "(args \<Rightarrow> args) \<Rightarrow> int \<Rightarrow> bool \<Rightarrow> args \<Rightarrow> exec_error \<times> event list + execute" where
  "Execute_init preprocesses_input_args len_train_set available a =
     (let a = preprocesses_input_args a
      in (case sanity_checking_with_arguments a of
            Inl err \<Rightarrow> Inl (err, [])
          | Inr u \<Rightarrow>
              let a = (if batch_size a > len_train_set then a\<lparr>batch_size := len_train_set\<rparr> else a);
                  st = (if model a = ''Shallom'' \<and> scoring_technique a = ''NegSample''
                        then ''KvsAll'' else scoring_technique a)
              in Inr \<lparr> exec_args = a, exec_scoring_technique = st,
                       neg_ratio = (if st = ''KvsAll'' then None else Some (negative_sample_ratio a)),
                       valid_test_available = available,
                       events = [Dataset_loaded, Experiment_folder_created] \<rparr>))"

text \<open>\<open>Execute.train_and_eval\<close>.\<close>

definition train_and_eval :: "execute \<Rightarrow> exec_error \<times> event list + execute" where
  "train_and_eval ex =
     (let ev = events ex @ [Trainer_created]
      in if valid_test_available ex then
           (if exec_scoring_technique ex = ''NegSample'' then
              Inr (ex\<lparr>events := ev @ [Trained_negative_sampling]\<rparr>)
            else if exec_scoring_technique ex = ''KvsAll'' then
              Inr (ex\<lparr>events := ev @ [Trained]\<rparr>)
            else Inl (ValueError (''Invalid argument: '' @ exec_scoring_technique ex), ev))
         else if num_folds_for_cv (exec_args ex) < 2 then
           Inr (ex\<lparr>events := ev @ [Trained]\<rparr>)
         else Inr (ex\<lparr>events := ev @ [Cross_validated]\<rparr>))"

text \<open>A run: the constructor, then \<open>train_and_eval\<close> as \<open>Execute.start\<close> calls it.\<close>

definition Execute_run ::
  "(args \<Rightarrow> args) \<Rightarrow> int \<Rightarrow> bool \<Rightarrow> args \<Rightarrow> exec_error \<times> event list + execute" where
  "Execute_run preprocesses_input_args len_train_set available a =
     (case Execute_init preprocesses_input_args len_train_set available a of
        Inl err \<Rightarrow> Inl err
      | Inr ex \<Rightarrow> train_and_eval ex)"

section \<open>Collaborators for concrete runs\<close>

text \<open>
  Modelled from the spec: \<open>create_recipriocal_triples_from_dask\<close> and \<open>index_triples\<close> of
  \<open>static_funcs\<close> are not among the sources. The specification: reciprocal augmentation
  adds, for every triple \<open>(s, p, o)\<close>, the triple \<open>(o, p\<^sup>-\<^sup>1, s)\<close> whose relation is derived
  from \<open>p\<close> by a fixed naming convention; the indexer substitutes each string by its id,
  and a string absent from the vocabulary is a hard error. They instantiate the
  parameters where a run is evaluated; the general theorems hold for every collaborator.
\<close>

definition reciprocal_spec :: "str_table \<Rightarrow> str_table" where
  "reciprocal_spec rows = rows @ map (\<lambda>(s, p, o'). (o', p @ ''_inverse'', s)) rows"

definition lookup :: "vocab \<Rightarrow> string \<Rightarrow> error + int" where
  "lookup v k = (case map_of v k of None \<Rightarrow> Inl KeyError | Some i \<Rightarrow> Inr i)"

fun index_triples_spec :: "str_table \<Rightarrow> vocab \<Rightarrow> vocab \<Rightarrow> error + idx_table" where
  "index_triples_spec [] e2i r2i = Inr []"
| "index_triples_spec ((s, p, o') # rows) e2i r2i =
     (case lookup e2i s of Inl err \<Rightarrow> Inl err | Inr sid \<Rightarrow>
      (case lookup r2i p of Inl err \<Rightarrow> Inl err | Inr pid \<Rightarrow>
       (case lookup e2i o' of Inl err \<Rightarrow> Inl err | Inr oid \<Rightarrow>
        (case index_triples_spec rows e2i r2i of
           Inl err \<Rightarrow> Inl err
         | Inr ix \<Rightarrow> Inr ((sid, pid, oid) # ix)))))"

text \<open>
  An environment over given raw files and a given store. Its noise step repeats the
  first row of the table, one admissible outcome of the random draw.
\<close>

definition env_of :: "(string \<Rightarrow> str_table option) \<Rightarrow> files \<Rightarrow> env" where
  "env_of raw fs =
     \<lparr> load_data_parallel = (\<lambda>path few ratio. raw path),
       create_recipriocal_triples_from_dask = reciprocal_spec,
       add_noisy_triples = (\<lambda>rows rate. rows @ take 1 rows),
       index_triples = index_triples_spec,
       layout = F_order,
       disk = fs \<rparr>"

text \<open>Raw data with a training and a validation directory and no test directory.\<close>

definition raw_train_valid :: "string \<Rightarrow> str_table option" where
  "raw_train_valid path =
     (if path = ''kg/train'' then Some [(''a'', ''r'', ''b''), (''b'', ''r'', ''c'')]
      else if path = ''kg/valid'' then Some [(''c'', ''r'', ''a'')]
      else None)"

definition config_of :: "string option \<Rightarrow> bool option \<Rightarrow> bool option \<Rightarrow> string option \<Rightarrow> config" where
  "config_of flag reciprocal evaluate path =
     \<lparr> data_dir = Some ''kg'', deserialize_flag = flag, add_reciprical = reciprocal,
       eval_model = evaluate, read_only_few = None, sample_triples_ratio = None,
       path_for_serialization = path, add_noise_rate = None, min_freq_for_vocab = None,
       entity_to_idx_arg = None, relation_to_idx_arg = None \<rparr>"

text \<open>Raw data with all three directories.\<close>

definition raw_train_valid_test :: "string \<Rightarrow> str_table option" where
  "raw_train_valid_test path =
     (if path = ''kg/train'' then Some [(''a'', ''r'', ''b''), (''b'', ''r'', ''c'')]
      else if path = ''kg/valid'' then Some [(''c'', ''r'', ''a'')]
      else if path = ''kg/test'' then Some [(''b'', ''r'', ''a'')]
      else None)"

text \<open>A store that holds both vocabularies, the training table and the test table.\<close>

definition stored_without_valid :: files where
  "stored_without_valid =
     [''out/entity_to_idx.gzip'' \<mapsto> Vocab_art [(''a'', 0), (''b'', 1), (''c'', 2)],
      ''out/relation_to_idx.gzip'' \<mapsto> Vocab_art [(''r'', 0)],
      ''out/idx_train_df.gzip'' \<mapsto> Idx_art [(0, 0, 1), (1, 0, 2)],
      ''out/idx_test_df.gzip'' \<mapsto> Idx_art [(1, 0, 0)]]"

text \<open>Raw data with a training directory only.\<close>

definition raw_train_only :: "string \<Rightarrow> str_table option" where
  "raw_train_only path =
     (if path = ''kg/train'' then Some [(''a'', ''r'', ''b''), (''b'', ''r'', ''c'')] else None)"

text \<open>
  A configuration with supplied vocabularies, as \<open>KG(data_dir='kg', entity_to_idx=...,
  relation_to_idx=...)\<close> gives it.
\<close>

definition config_supplied :: "vocab \<Rightarrow> vocab \<Rightarrow> config" where
  "config_supplied entity_frame relation_frame =
     (config_of None None None None)
       \<lparr>entity_to_idx_arg := Some entity_frame, relation_to_idx_arg := Some relation_frame\<rparr>"

text \<open>
  A store whose indexed training table does not fit its vocabularies: one entity, one
  relation, and a training triple with the subject 5.
\<close>

definition stored_mismatched :: files where
  "stored_mismatched =
     [''out/entity_to_idx.gzip'' \<mapsto> Vocab_art [(''a'', 0)],
      ''out/relation_to_idx.gzip'' \<mapsto> Vocab_art [(''r'', 0)],
      ''out/idx_train_df.gzip'' \<mapsto> Idx_art [(5, 0, 0)]]"

section \<open>Properties stated by the specification\<close>

text \<open>
  A vocabulary is dense and numbered by first appearance along a sequence \<open>flat\<close> of
  strings when its keys are exactly the strings of the sequence, no key and no id
  occurs twice, its ids are exactly the integers from zero below its size, and a string
  has the smaller id exactly when it appears first in the sequence.
\<close>

definition dense_first_seen :: "vocab \<Rightarrow> string list \<Rightarrow> bool" where
  "dense_first_seen v flat \<longleftrightarrow>
     fst ` set v = set flat \<and>
     distinct (map fst v) \<and>
     distinct (map snd v) \<and>
     snd ` set v = {i. 0 \<le> i \<and> i < int (length v)} \<and>
     (\<forall>a \<in> set flat. \<forall>b \<in> set flat.
        \<exists>i j. map_of v a = Some i \<and> map_of v b = Some j \<and>
              (i < j \<longleftrightarrow> first_index a flat < first_index b flat))"

text \<open>In a vocabulary, the first string has an id and it is smaller than the second's.\<close>

definition id_before :: "vocab \<Rightarrow> string \<Rightarrow> string \<Rightarrow> bool" where
  "id_before v a b \<longleftrightarrow>
     (case map_of v a of
        None \<Rightarrow> False
      | Some i \<Rightarrow> (case map_of v b of None \<Rightarrow> False | Some j \<Rightarrow> i < j))"

text \<open>The entity strings of a table: its subjects and its objects.\<close>

definition entities_of :: "str_table \<Rightarrow> string set" where
  "entities_of rows = subject ` set rows \<union> object ` set rows"

text \<open>
  The index bound invariant of the specification for one triple: subject and object in
  \<open>[0, num_entities)\<close>, relation in \<open>[0, num_relations)\<close>.
\<close>

definition index_bound :: "int \<Rightarrow> int \<Rightarrow> idx_triple \<Rightarrow> bool" where
  "index_bound ne nr t \<longleftrightarrow>
     (case t of (s, p, o') \<Rightarrow> 0 \<le> s \<and> s < ne \<and> 0 \<le> o' \<and> o' < ne \<and> 0 \<le> p \<and> p < nr)"

section \<open>Vocabulary: density and order of first appearance\<close>

lemma set_unique_from: "set (unique_from seen xs) = set xs - set seen"
  by (induction xs arbitrary: seen) auto

lemma distinct_unique_from: "distinct (unique_from seen xs)"
  by (induction xs arbitrary: seen) (auto simp: set_unique_from)

lemma set_pd_unique: "set (pd_unique xs) = set xs"
  by (simp add: pd_unique_def set_unique_from)

lemma distinct_pd_unique: "distinct (pd_unique xs)"
  by (simp add: pd_unique_def distinct_unique_from)

lemma first_index_unique_from:
  "a \<in> set xs \<Longrightarrow> b \<in> set xs \<Longrightarrow> a \<notin> set seen \<Longrightarrow> b \<notin> set seen \<Longrightarrow>
   first_index a (unique_from seen xs) < first_index b (unique_from seen xs)
     \<longleftrightarrow> first_index a xs < first_index b xs"
proof (induction xs arbitrary: seen)
  case Nil
  then show ?case by simp
next
  case (Cons x xs)
  show ?case
  proof (cases "x = a \<or> x = b")
    case True
    with Cons.prems show ?thesis by auto
  next
    case False
    with Cons.prems have ab: "a \<in> set xs" "b \<in> set xs" by auto
    show ?thesis
    proof (cases "x \<in> set seen")
      case True
      with False Cons.IH [OF ab Cons.prems(3,4)] show ?thesis by simp
    next
      case nin: False
      from False Cons.prems have "a \<notin> set (x # seen)" "b \<notin> set (x # seen)" by auto
      from Cons.IH [OF ab this] False nin show ?thesis by simp
    qed
  qed
qed

lemma first_index_pd_unique:
  "a \<in> set xs \<Longrightarrow> b \<in> set xs \<Longrightarrow>
   first_index a (pd_unique xs) < first_index b (pd_unique xs)
     \<longleftrightarrow> first_index a xs < first_index b xs"
  by (simp add: pd_unique_def first_index_unique_from)

lemma first_index_less_length: "a \<in> set xs \<Longrightarrow> first_index a xs < length xs"
  by (induction xs) auto

lemma map_of_zip_first_index:
  "a \<in> set l \<Longrightarrow> map_of (zip l (map f [k..<k + length l])) a = Some (f (k + first_index a l))"
proof (induction l arbitrary: k)
  case Nil
  then show ?case by simp
next
  case (Cons x l)
  have upt: "[k..<k + length (x # l)] = k # [Suc k..<Suc k + length l]"
    using upt_conv_Cons [of k "k + length (x # l)"] by simp
  show ?case
  proof (cases "x = a")
    case True
    then show ?thesis unfolding upt by simp
  next
    case False
    with Cons.prems have "a \<in> set l" by simp
    from Cons.IH [OF this, of "Suc k"] False show ?thesis unfolding upt by simp
  qed
qed

lemma map_of_to_frame:
  "a \<in> set l \<Longrightarrow> map_of (to_frame l) a = Some (int (first_index a l))"
  using map_of_zip_first_index [of a l int 0] by (simp add: to_frame_def arange_def)

lemma map_fst_to_frame: "map fst (to_frame l) = l"
  by (simp add: to_frame_def arange_def)

lemma map_snd_to_frame: "map snd (to_frame l) = arange (length l)"
  by (simp add: to_frame_def arange_def)

lemma length_to_frame: "length (to_frame l) = length l"
  by (simp add: to_frame_def arange_def)

lemma update_fresh: "k \<notin> fst ` set al \<Longrightarrow> AList.update k v al = al @ [(k, v)]"
  by (induction al) auto

lemma fold_update_distinct:
  "distinct (map fst (acc @ df)) \<Longrightarrow> fold (\<lambda>(k, v). AList.update k v) df acc = acc @ df"
proof (induction df arbitrary: acc)
  case Nil
  then show ?case by simp
next
  case (Cons kv df)
  obtain k v where kv: "kv = (k, v)" by (cases kv)
  from Cons.prems kv have fresh: "k \<notin> fst ` set acc" by auto
  from Cons.prems kv have "distinct (map fst ((acc @ [(k, v)]) @ df))" by simp
  from Cons.IH [OF this] fresh kv show ?case by (simp add: update_fresh)
qed

lemma to_dict_distinct: "distinct (map fst df) \<Longrightarrow> to_dict df = df"
  using fold_update_distinct [of "[]" df] by (simp add: to_dict_def)

lemma to_dict_to_frame: "distinct l \<Longrightarrow> to_dict (to_frame l) = to_frame l"
  by (simp add: to_dict_distinct map_fst_to_frame)

lemma set_arange: "set (arange n) = {i. 0 \<le> i \<and> i < int n}"
proof -
  have "int ` {0..<n} = {i. 0 \<le> i \<and> i < int n}"
    by (auto simp: image_iff intro: nonneg_int_cases) 
  then show ?thesis by (simp add: arange_def)
qed

lemma distinct_arange: "distinct (arange n)"
  by (simp add: arange_def distinct_map)

lemma set_ravel_K: "set (ravel_K lay rows) = fst ` set rows \<union> snd ` set rows"
proof (cases lay)
  case C_order
  have "set (concat (map (\<lambda>(s, o'). [s, o']) rows)) = fst ` set rows \<union> snd ` set rows"
    by (induction rows) auto
  with C_order show ?thesis by simp
next
  case F_order
  then show ?thesis by simp
qed

lemma sequential_vocabulary_construction_Inr:
  assumes "sequential_vocabulary_construction lay path mf train valid test fs = Inr (train', ef, rf, fs')"
  shows "remove_triples_from_train_with_condition mf train = Inr train'"
    and "ef = to_frame (entity_ordered_list lay (concat_splits train' valid test))"
    and "rf = to_frame (relation_ordered_list (concat_splits train' valid test))"
    and "\<exists>p. path = Some p \<and>
           fs' = fs(p @ ''/entity_to_idx.gzip'' \<mapsto> Vocab_art ef, p @ ''/relation_to_idx.gzip'' \<mapsto> Vocab_art rf)"
  using assms
  by (auto simp: sequential_vocabulary_construction_def to_parquet_unguarded_def Let_def
      split: sum.splits option.splits)

lemma dense_first_seen_to_frame:
  "dense_first_seen (to_dict (to_frame (pd_unique flat))) flat"
proof -
  let ?l = "pd_unique flat"
  have d: "distinct ?l" by (rule distinct_pd_unique)
  have eq: "to_dict (to_frame ?l) = to_frame ?l" by (rule to_dict_to_frame [OF d])
  have keys: "fst ` set (to_frame ?l) = set flat"
    using map_fst_to_frame [of ?l] set_pd_unique [of flat] by (metis set_map)
  have dk: "distinct (map fst (to_frame ?l))" by (simp add: map_fst_to_frame d)
  have dv: "distinct (map snd (to_frame ?l))" by (simp add: map_snd_to_frame distinct_arange)
  have ids: "snd ` set (to_frame ?l) = {i. 0 \<le> i \<and> i < int (length (to_frame ?l))}"
    using map_snd_to_frame [of ?l] set_arange [of "length ?l"]
    by (metis set_map length_to_frame)
  have ord: "\<exists>i j. map_of (to_frame ?l) a = Some i \<and> map_of (to_frame ?l) b = Some j \<and>
              (i < j \<longleftrightarrow> first_index a flat < first_index b flat)"
    if "a \<in> set flat" "b \<in> set flat" for a b
  proof -
    from that have "a \<in> set ?l" "b \<in> set ?l" by (simp_all add: set_pd_unique)
    then have "map_of (to_frame ?l) a = Some (int (first_index a ?l))"
      "map_of (to_frame ?l) b = Some (int (first_index b ?l))"
      by (simp_all add: map_of_to_frame)
    moreover have "int (first_index a ?l) < int (first_index b ?l)
        \<longleftrightarrow> first_index a flat < first_index b flat"
      using first_index_pd_unique [OF that] by simp
    ultimately show ?thesis by blast
  qed
  show ?thesis unfolding dense_first_seen_def eq
    using keys dk dv ids ord by blast
qed

lemma first_index_append_left: "a \<in> set xs \<Longrightarrow> first_index a (xs @ ys) = first_index a xs"
  by (induction xs) auto

lemma first_index_append_right:
  "b \<notin> set xs \<Longrightarrow> first_index b (xs @ ys) = length xs + first_index b ys"
  by (induction xs) auto

lemma dense_first_seen_before:
  assumes "dense_first_seen v (xs @ ys)" and "a \<in> set xs" and "b \<in> set ys" and "b \<notin> set xs"
  shows "id_before v a b"
proof -
  from assms(2,3) have "a \<in> set (xs @ ys)" "b \<in> set (xs @ ys)" by simp_all
  with assms(1) obtain i j where ij: "map_of v a = Some i" "map_of v b = Some j"
    "i < j \<longleftrightarrow> first_index a (xs @ ys) < first_index b (xs @ ys)"
    unfolding dense_first_seen_def by blast
  have "first_index a (xs @ ys) < length xs"
    using assms(2) by (simp add: first_index_append_left first_index_less_length)
  moreover have "length xs \<le> first_index b (xs @ ys)"
    using assms(4) by (simp add: first_index_append_right)
  ultimately have "i < j" using ij(3) by simp
  with ij(1,2) show ?thesis by (simp add: id_before_def)
qed

lemma ravel_K_C_append:
  "ravel_K C_order (xs @ ys) = ravel_K C_order xs @ ravel_K C_order ys"
  by simp

lemma set_ravel_cells:
  "set (ravel_K lay (map (\<lambda>r. (subject r, object r)) rows)) = entities_of rows"
  by (simp add: set_ravel_K entities_of_def image_image)


text \<open>
  C3 (amended). The entity vocabulary built from the pruned training table and the
  validation and test tables that are present maps exactly the subject and object
  strings of their concatenation (train, valid, test) to the ids \<open>0, ..., N - 1\<close>,
  without gaps and without duplicates, and a string has the smaller id exactly when it
  appears first in the flattened subject and object cells of the concatenation, taken
  in the memory order of that array. Flattened row by row, every entity string of an
  earlier split is numbered before a string first seen in a later split. Flattened
  column by column, every string that is a subject somewhere is numbered before a
  string that occurs as an object only, whatever their splits. The relation vocabulary
  is dense in the same way and follows the relation column, so every relation string of
  an earlier split is numbered before one first seen in a later split.
\<close>

theorem vocabulary_dense_in_memory_order:
  assumes "sequential_vocabulary_construction lay path mf train valid test fs
             = Inr (train', ef, rf, fs')"
    and "df = concat_splits train' valid test"
    and "early = train' @ present valid"
  shows "remove_triples_from_train_with_condition mf train = Inr train' \<and>
         dense_first_seen (to_dict ef) (ravel_K lay (map (\<lambda>r. (subject r, object r)) df)) \<and>
         fst ` set (to_dict ef) = entities_of df \<and>
         dense_first_seen (to_dict rf) (map relation df) \<and>
         fst ` set (to_dict rf) = relation ` set df \<and>
         (\<forall>a \<in> relation ` set train'. \<forall>b \<in> relation ` set df - relation ` set train'.
            id_before (to_dict rf) a b) \<and>
         (\<forall>a \<in> relation ` set early. \<forall>b \<in> relation ` set df - relation ` set early.
            id_before (to_dict rf) a b) \<and>
         (lay = C_order \<longrightarrow>
            (\<forall>a \<in> entities_of train'. \<forall>b \<in> entities_of df - entities_of train'.
               id_before (to_dict ef) a b) \<and>
            (\<forall>a \<in> entities_of early. \<forall>b \<in> entities_of df - entities_of early.
               id_before (to_dict ef) a b)) \<and>
         (lay = F_order \<longrightarrow>
            (\<forall>a \<in> subject ` set df. \<forall>b \<in> object ` set df - subject ` set df.
               id_before (to_dict ef) a b))"
proof -
  note r = sequential_vocabulary_construction_Inr [OF assms(1)]
  let ?cells = "\<lambda>rows. map (\<lambda>r. (subject r, object r)) rows"
  let ?flat = "ravel_K lay (?cells df)"
  let ?rest = "present valid @ present test"
  have df1: "df = train' @ ?rest" by (simp add: assms(2) concat_splits_def)
  have df2: "df = early @ present test" by (simp add: assms(2,3) concat_splits_def)
  have e: "dense_first_seen (to_dict ef) ?flat"
    using dense_first_seen_to_frame [of ?flat] r(2) assms(2)
    by (simp add: entity_ordered_list_def)
  have rl: "dense_first_seen (to_dict rf) (map relation df)"
    using dense_first_seen_to_frame [of "map relation df"] r(3) assms(2)
    by (simp add: relation_ordered_list_def)
  from e have ek: "fst ` set (to_dict ef) = entities_of df"
    by (simp add: dense_first_seen_def set_ravel_cells)
  from rl have rk: "fst ` set (to_dict rf) = relation ` set df"
    by (simp add: dense_first_seen_def)
  have rel_split: "id_before (to_dict rf) a b"
    if "df = xs @ ys" "a \<in> relation ` set xs" "b \<in> relation ` set df - relation ` set xs"
    for xs ys a b
  proof -
    from rl that(1) have "dense_first_seen (to_dict rf) (map relation xs @ map relation ys)"
      by simp
    moreover from that have "a \<in> set (map relation xs)" "b \<in> set (map relation ys)"
      "b \<notin> set (map relation xs)" by auto
    ultimately show ?thesis by (rule dense_first_seen_before)
  qed
  have ent_split: "id_before (to_dict ef) a b"
    if "lay = C_order" "df = xs @ ys" "a \<in> entities_of xs" "b \<in> entities_of df - entities_of xs"
    for xs ys a b
  proof -
    from e that(1,2) have "dense_first_seen (to_dict ef)
        (ravel_K C_order (?cells xs) @ ravel_K C_order (?cells ys))"
      by simp
    moreover from that(3) have "a \<in> set (ravel_K C_order (?cells xs))"
      by (simp only: set_ravel_cells)
    moreover from that(2,4) have "b \<in> set (ravel_K C_order (?cells ys))"
      "b \<notin> set (ravel_K C_order (?cells xs))"
      by (auto simp only: set_ravel_cells entities_of_def set_append image_Un)
    ultimately show ?thesis by (rule dense_first_seen_before)
  qed
  have col: "id_before (to_dict ef) a b"
    if "lay = F_order" "a \<in> subject ` set df" "b \<in> object ` set df - subject ` set df" for a b
  proof -
    from e that(1) have "dense_first_seen (to_dict ef) (map subject df @ map object df)"
      by (simp add: comp_def)
    moreover from that(2,3) have "a \<in> set (map subject df)" "b \<in> set (map object df)"
      "b \<notin> set (map subject df)" by auto
    ultimately show ?thesis by (rule dense_first_seen_before)
  qed
  have c1: "\<forall>a \<in> relation ` set train'. \<forall>b \<in> relation ` set df - relation ` set train'.
            id_before (to_dict rf) a b"
    using rel_split [OF df1] by (intro ballI)
  have c2: "\<forall>a \<in> relation ` set early. \<forall>b \<in> relation ` set df - relation ` set early.
            id_before (to_dict rf) a b"
    using rel_split [OF df2] by (intro ballI)
  have c3: "lay = C_order \<longrightarrow>
            (\<forall>a \<in> entities_of train'. \<forall>b \<in> entities_of df - entities_of train'.
               id_before (to_dict ef) a b) \<and>
            (\<forall>a \<in> entities_of early. \<forall>b \<in> entities_of df - entities_of early.
               id_before (to_dict ef) a b)"
    using ent_split [OF _ df1] ent_split [OF _ df2] by (intro impI conjI ballI)
  have c4: "lay = F_order \<longrightarrow>
            (\<forall>a \<in> subject ` set df. \<forall>b \<in> object ` set df - subject ` set df.
               id_before (to_dict ef) a b)"
    using col by (intro impI ballI)
  note c0 = r(1)
  show ?thesis by (intro conjI) (fact c0 e ek rl rk c1 c2 c3 c4)+
qed


lemmas vocabulary_run_defs = sequential_vocabulary_construction_def
  remove_triples_from_train_with_condition_def to_parquet_unguarded_def concat_splits_def
  present_def entity_ordered_list_def relation_ordered_list_def pd_unique_def to_frame_def
  arange_def upt_conv_Cons Let_def

theorem vocabulary_dense_in_memory_order_witness:
  "(sequential_vocabulary_construction F_order (Some ''out'') None
       [(''a'', ''r'', ''b''), (''c'', ''r'', ''a'')] (Some [(''b'', ''q'', ''d'')]) None Map.empty
     = Inr ([(''a'', ''r'', ''b''), (''c'', ''r'', ''a'')],
            [(''a'', 0), (''c'', 1), (''b'', 2), (''d'', 3)],
            [(''r'', 0), (''q'', 1)],
            [''out/entity_to_idx.gzip'' \<mapsto> Vocab_art [(''a'', 0), (''c'', 1), (''b'', 2), (''d'', 3)],
             ''out/relation_to_idx.gzip'' \<mapsto> Vocab_art [(''r'', 0), (''q'', 1)]]) \<and>
    dense_first_seen (to_dict [(''a'', 0), (''c'', 1), (''b'', 2), (''d'', 3)])
      [''a'', ''c'', ''b'', ''b'', ''a'', ''d''] \<and>
    dense_first_seen (to_dict [(''r'', 0), (''q'', 1)]) [''r'', ''r'', ''q''] \<and>
    id_before (to_dict [(''r'', 0), (''q'', 1)]) ''r'' ''q'' \<and>
    id_before (to_dict [(''a'', 0), (''c'', 1), (''b'', 2), (''d'', 3)]) ''c'' ''d'') \<and>
   (sequential_vocabulary_construction C_order (Some ''out'') None
       [(''a'', ''r'', ''b''), (''c'', ''r'', ''a'')] (Some [(''b'', ''q'', ''d'')]) None Map.empty
     = Inr ([(''a'', ''r'', ''b''), (''c'', ''r'', ''a'')],
            [(''a'', 0), (''b'', 1), (''c'', 2), (''d'', 3)],
            [(''r'', 0), (''q'', 1)],
            [''out/entity_to_idx.gzip'' \<mapsto> Vocab_art [(''a'', 0), (''b'', 1), (''c'', 2), (''d'', 3)],
             ''out/relation_to_idx.gzip'' \<mapsto> Vocab_art [(''r'', 0), (''q'', 1)]]) \<and>
    dense_first_seen (to_dict [(''a'', 0), (''b'', 1), (''c'', 2), (''d'', 3)])
      [''a'', ''b'', ''c'', ''a'', ''b'', ''d''] \<and>
    id_before (to_dict [(''a'', 0), (''b'', 1), (''c'', 2), (''d'', 3)]) ''c'' ''d'')"
proof -
  let ?T = "[(''a'', ''r'', ''b''), (''c'', ''r'', ''a'')]"
  let ?V = "[(''b'', ''q'', ''d'')]"
  let ?df = "[(''a'', ''r'', ''b''), (''c'', ''r'', ''a''), (''b'', ''q'', ''d'')]"
  have runF: "sequential_vocabulary_construction F_order (Some ''out'') None ?T (Some ?V) None Map.empty
     = Inr (?T, [(''a'', 0), (''c'', 1), (''b'', 2), (''d'', 3)], [(''r'', 0), (''q'', 1)],
            [''out/entity_to_idx.gzip'' \<mapsto> Vocab_art [(''a'', 0), (''c'', 1), (''b'', 2), (''d'', 3)],
             ''out/relation_to_idx.gzip'' \<mapsto> Vocab_art [(''r'', 0), (''q'', 1)]])"
    by (simp add: vocabulary_run_defs)
  have runC: "sequential_vocabulary_construction C_order (Some ''out'') None ?T (Some ?V) None Map.empty
     = Inr (?T, [(''a'', 0), (''b'', 1), (''c'', 2), (''d'', 3)], [(''r'', 0), (''q'', 1)],
            [''out/entity_to_idx.gzip'' \<mapsto> Vocab_art [(''a'', 0), (''b'', 1), (''c'', 2), (''d'', 3)],
             ''out/relation_to_idx.gzip'' \<mapsto> Vocab_art [(''r'', 0), (''q'', 1)]])"
    by (simp add: vocabulary_run_defs)
  have df: "?df = concat_splits ?T (Some ?V) None"
    by (simp add: concat_splits_def present_def)
  have early: "?df = ?T @ present (Some ?V)" by (simp add: present_def)
  note tF = vocabulary_dense_in_memory_order [OF runF df early]
  note tC = vocabulary_dense_in_memory_order [OF runC df early]
  have mem: "''r'' \<in> relation ` set ?T" "''q'' \<in> relation ` set ?df - relation ` set ?T"
    "''c'' \<in> subject ` set ?df" "''d'' \<in> object ` set ?df - subject ` set ?df"
    "''c'' \<in> entities_of ?T" "''d'' \<in> entities_of ?df - entities_of ?T"
    by (simp_all add: entities_of_def)
  from tF have f1: "dense_first_seen (to_dict [(''a'', 0), (''c'', 1), (''b'', 2), (''d'', 3)])
      [''a'', ''c'', ''b'', ''b'', ''a'', ''d'']"
    and f2: "dense_first_seen (to_dict [(''r'', 0), (''q'', 1)]) [''r'', ''r'', ''q'']"
    by simp_all
  from tF mem(1,2) have f3: "id_before (to_dict [(''r'', 0), (''q'', 1)]) ''r'' ''q''"
    by blast
  from tF mem(3,4) have f4: "id_before (to_dict [(''a'', 0), (''c'', 1), (''b'', 2), (''d'', 3)]) ''c'' ''d''"
    by blast
  from tC have g1: "dense_first_seen (to_dict [(''a'', 0), (''b'', 1), (''c'', 2), (''d'', 3)])
      [''a'', ''b'', ''c'', ''a'', ''b'', ''d'']"
    by simp
  from tC mem(5,6) have g2: "id_before (to_dict [(''a'', 0), (''b'', 1), (''c'', 2), (''d'', 3)]) ''c'' ''d''"
    by blast
  show ?thesis by (intro conjI) (fact runF runC f1 f2 f3 f4 g1 g2)+
qed

text \<open>
  C3 as stated fails when the subject and object cells are flattened column by column,
  the layout of the values of a single-block frame: with the training triple
  \<open>(a, r, b)\<close> and the validation triple \<open>(c, r, a)\<close>, the string \<open>b\<close> appears in
  the training split and \<open>c\<close> in the validation split only, yet \<open>c\<close> receives the
  id 1 and \<open>b\<close> the id 2.
\<close>

theorem valid_only_string_numbered_first_counterexample:
  "sequential_vocabulary_construction F_order (Some ''out'') None
       [(''a'', ''r'', ''b'')] (Some [(''c'', ''r'', ''a'')]) None Map.empty
     = Inr ([(''a'', ''r'', ''b'')],
            [(''a'', 0), (''c'', 1), (''b'', 2)],
            [(''r'', 0)],
            [''out/entity_to_idx.gzip'' \<mapsto> Vocab_art [(''a'', 0), (''c'', 1), (''b'', 2)],
             ''out/relation_to_idx.gzip'' \<mapsto> Vocab_art [(''r'', 0)]]) \<and>
   ''b'' \<in> entities_of [(''a'', ''r'', ''b'')] \<and>
   ''c'' \<notin> entities_of [(''a'', ''r'', ''b'')] \<and>
   ''c'' \<in> entities_of [(''c'', ''r'', ''a'')] \<and>
   map_of (to_dict [(''a'', 0), (''c'', 1), (''b'', 2)]) ''c'' = Some 1 \<and>
   map_of (to_dict [(''a'', 0), (''c'', 1), (''b'', 2)]) ''b'' = Some 2"
  by (simp add: vocabulary_run_defs entities_of_def to_dict_def)

section \<open>Pruning and the vocabulary\<close>

lemma set_low_frequency:
  "set (low_frequency t (value_counts xs)) = {x \<in> set xs. int (count_list xs x) \<le> t}"
proof -
  have "x \<in> set (low_frequency t (value_counts xs)) \<longleftrightarrow> x \<in> set xs \<and> int (count_list xs x) \<le> t"
    for x
  proof -
    have "set (value_counts xs) = (\<lambda>x. (x, count_list xs x)) ` set xs"
      by (simp add: value_counts_def set_pd_unique)
    then show ?thesis by (force simp: low_frequency_def)
  qed
  then show ?thesis by blast
qed

lemma remove_triples_Some:
  assumes "remove_triples_from_train_with_condition (Some t) train = Inr train'"
  shows "0 < t"
    and "set train' \<subseteq> set train"
    and "r \<in> set train' \<Longrightarrow>
           \<not> int (count_list (map subject train @ map object train) (subject r)) \<le> t \<and>
           \<not> int (count_list (map subject train @ map object train) (object r)) \<le> t \<and>
           \<not> int (count_list (map relation train) (relation r)) \<le> t"
proof -
  from assms show pos: "0 < t"
    by (auto simp: remove_triples_from_train_with_condition_def split: if_splits)
  let ?le = "low_frequency t (value_counts (map subject train @ map object train))"
  let ?lr = "low_frequency t (value_counts (map relation train))"
  from assms pos have eq: "train' =
      filter (\<lambda>r. relation r \<notin> set ?lr)
        (filter (\<lambda>r. object r \<notin> set ?le) (filter (\<lambda>r. subject r \<notin> set ?le) train))"
    by (simp add: remove_triples_from_train_with_condition_def Let_def)
  then show "set train' \<subseteq> set train" by auto
  assume "r \<in> set train'"
  with eq have r: "r \<in> set train" "subject r \<notin> set ?le" "object r \<notin> set ?le" "relation r \<notin> set ?lr"
    by auto
  from r(1) have "subject r \<in> set (map subject train @ map object train)"
    "object r \<in> set (map subject train @ map object train)"
    "relation r \<in> set (map relation train)" by auto
  with r(2-4) show "\<not> int (count_list (map subject train @ map object train) (subject r)) \<le> t \<and>
           \<not> int (count_list (map subject train @ map object train) (object r)) \<le> t \<and>
           \<not> int (count_list (map relation train) (relation r)) \<le> t"
    unfolding set_low_frequency by blast
qed

lemma vocabulary_keys:
  assumes "sequential_vocabulary_construction lay path mf train valid test fs
             = Inr (train', ef, rf, fs')"
  shows "fst ` set (to_dict ef) =
           subject ` set (concat_splits train' valid test) \<union> object ` set (concat_splits train' valid test)"
    and "fst ` set (to_dict rf) = relation ` set (concat_splits train' valid test)"
proof -
  note r = sequential_vocabulary_construction_Inr [OF assms]
  let ?df = "concat_splits train' valid test"
  let ?flat = "ravel_K lay (map (\<lambda>r. (subject r, object r)) ?df)"
  have "dense_first_seen (to_dict ef) ?flat"
    using dense_first_seen_to_frame [of ?flat] r(2) by (simp add: entity_ordered_list_def)
  moreover have "set ?flat = subject ` set ?df \<union> object ` set ?df"
    by (simp add: set_ravel_K image_image)
  ultimately show "fst ` set (to_dict ef) = subject ` set ?df \<union> object ` set ?df"
    by (simp add: dense_first_seen_def)
  have "dense_first_seen (to_dict rf) (map relation ?df)"
    using dense_first_seen_to_frame [of "map relation ?df"] r(3)
    by (simp add: relation_ordered_list_def)
  then show "fst ` set (to_dict rf) = relation ` set ?df"
    by (simp add: dense_first_seen_def)
qed

text \<open>
  C4 (amended). With a threshold \<open>t\<close> the run continues only when \<open>t\<close> is positive,
  and pruning precedes the construction of the vocabulary. Pruning looks at the training
  table alone: a string counted at most \<open>t\<close> times there occurs in no row of the pruned
  training table, and it receives an id exactly when the validation or the test table
  names it (as subject or object for an entity, as relation for a relation).
\<close>

theorem pruned_string_id_only_from_valid_or_test:
  assumes "sequential_vocabulary_construction lay path (Some t) train valid test fs
             = Inr (train', ef, rf, fs')"
    and "others = present valid @ present test"
  shows "0 < t \<and>
         (int (count_list (map subject train @ map object train) x) \<le> t \<longrightarrow>
            x \<notin> subject ` set train' \<union> object ` set train' \<and>
            (x \<in> fst ` set (to_dict ef) \<longleftrightarrow> x \<in> subject ` set others \<union> object ` set others)) \<and>
         (int (count_list (map relation train) y) \<le> t \<longrightarrow>
            y \<notin> relation ` set train' \<and>
            (y \<in> fst ` set (to_dict rf) \<longleftrightarrow> y \<in> relation ` set others))"
proof -
  note r = sequential_vocabulary_construction_Inr [OF assms(1)]
  note p = remove_triples_Some [OF r(1)]
  note k = vocabulary_keys [OF assms(1)]
  have df: "set (concat_splits train' valid test) = set train' \<union> set others"
    by (simp add: concat_splits_def assms(2))
  have e: "x \<notin> subject ` set train' \<union> object ` set train'"
    if "int (count_list (map subject train @ map object train) x) \<le> t"
    using that p(3) by blast
  have rl: "y \<notin> relation ` set train'" if "int (count_list (map relation train) y) \<le> t"
    using that p(3) by blast
  from e have e2: "x \<in> fst ` set (to_dict ef) \<longleftrightarrow> x \<in> subject ` set others \<union> object ` set others"
    if "int (count_list (map subject train @ map object train) x) \<le> t"
    using that unfolding k(1) df by blast
  from rl have rl2: "y \<in> fst ` set (to_dict rf) \<longleftrightarrow> y \<in> relation ` set others"
    if "int (count_list (map relation train) y) \<le> t"
    using that unfolding k(2) df by blast
  from p(1) e e2 rl rl2 show ?thesis by blast
qed

text \<open>
  A run with threshold 1: the entity \<open>c\<close> and the relation \<open>q\<close> occur once in the
  training table and again in the validation table.
\<close>

lemma pruning_run:
  "sequential_vocabulary_construction F_order (Some ''out'') (Some 1)
       [(''a'', ''r'', ''b''), (''a'', ''r'', ''b''), (''c'', ''r'', ''a''), (''a'', ''q'', ''b'')]
       (Some [(''c'', ''r'', ''a''), (''b'', ''q'', ''a'')]) None Map.empty
     = Inr ([(''a'', ''r'', ''b''), (''a'', ''r'', ''b'')],
            [(''a'', 0), (''c'', 1), (''b'', 2)],
            [(''r'', 0), (''q'', 1)],
            [''out/entity_to_idx.gzip'' \<mapsto> Vocab_art [(''a'', 0), (''c'', 1), (''b'', 2)],
             ''out/relation_to_idx.gzip'' \<mapsto> Vocab_art [(''r'', 0), (''q'', 1)]])"
  by (simp add: sequential_vocabulary_construction_def
      remove_triples_from_train_with_condition_def to_parquet_unguarded_def concat_splits_def
      present_def entity_ordered_list_def relation_ordered_list_def pd_unique_def to_frame_def
      arange_def upt_conv_Cons Let_def value_counts_def low_frequency_def
      del: set_filter set_map)

theorem pruned_string_id_only_from_valid_or_test_witness:
  "0 < (1::int) \<and>
   int (count_list (map subject [(''a'', ''r'', ''b''), (''a'', ''r'', ''b''), (''c'', ''r'', ''a''), (''a'', ''q'', ''b'')]
          @ map object [(''a'', ''r'', ''b''), (''a'', ''r'', ''b''), (''c'', ''r'', ''a''), (''a'', ''q'', ''b'')]) ''c'') \<le> 1 \<and>
   ''c'' \<notin> subject ` set [(''a'', ''r'', ''b''), (''a'', ''r'', ''b'')]
            \<union> object ` set [(''a'', ''r'', ''b''), (''a'', ''r'', ''b'')] \<and>
   ''c'' \<in> fst ` set (to_dict [(''a'', 0), (''c'', 1), (''b'', 2)]) \<and>
   ''c'' \<in> subject ` set [(''c'', ''r'', ''a''), (''b'', ''q'', ''a'')]
          \<union> object ` set [(''c'', ''r'', ''a''), (''b'', ''q'', ''a'')] \<and>
   int (count_list (map relation [(''a'', ''r'', ''b''), (''a'', ''r'', ''b''), (''c'', ''r'', ''a''), (''a'', ''q'', ''b'')]) ''q'') \<le> 1 \<and>
   ''q'' \<notin> relation ` set [(''a'', ''r'', ''b''), (''a'', ''r'', ''b'')] \<and>
   ''q'' \<in> fst ` set (to_dict [(''r'', 0), (''q'', 1)]) \<and>
   ''q'' \<in> relation ` set [(''c'', ''r'', ''a''), (''b'', ''q'', ''a'')]"
proof -
  have others: "[(''c'', ''r'', ''a''), (''b'', ''q'', ''a'')]
      = present (Some [(''c'', ''r'', ''a''), (''b'', ''q'', ''a'')]) @ present None"
    by (simp add: present_def)
  have ce: "int (count_list (map subject [(''a'', ''r'', ''b''), (''a'', ''r'', ''b''), (''c'', ''r'', ''a''), (''a'', ''q'', ''b'')]
          @ map object [(''a'', ''r'', ''b''), (''a'', ''r'', ''b''), (''c'', ''r'', ''a''), (''a'', ''q'', ''b'')]) ''c'') \<le> 1"
    by simp
  have cr: "int (count_list (map relation [(''a'', ''r'', ''b''), (''a'', ''r'', ''b''), (''c'', ''r'', ''a''), (''a'', ''q'', ''b'')]) ''q'') \<le> 1"
    by simp
  from pruned_string_id_only_from_valid_or_test [OF pruning_run others, of "''c''" "''q''"] ce cr
  show ?thesis by (simp add: to_dict_def)
qed

text \<open>
  C4 as stated fails on that run: \<open>c\<close> and \<open>q\<close> are counted once in the training
  table, at most the threshold, and both receive the id 1.
\<close>

theorem pruned_string_receives_id_counterexample:
  "sequential_vocabulary_construction F_order (Some ''out'') (Some 1)
       [(''a'', ''r'', ''b''), (''a'', ''r'', ''b''), (''c'', ''r'', ''a''), (''a'', ''q'', ''b'')]
       (Some [(''c'', ''r'', ''a''), (''b'', ''q'', ''a'')]) None Map.empty
     = Inr ([(''a'', ''r'', ''b''), (''a'', ''r'', ''b'')],
            [(''a'', 0), (''c'', 1), (''b'', 2)],
            [(''r'', 0), (''q'', 1)],
            [''out/entity_to_idx.gzip'' \<mapsto> Vocab_art [(''a'', 0), (''c'', 1), (''b'', 2)],
             ''out/relation_to_idx.gzip'' \<mapsto> Vocab_art [(''r'', 0), (''q'', 1)]]) \<and>
   count_list (map subject [(''a'', ''r'', ''b''), (''a'', ''r'', ''b''), (''c'', ''r'', ''a''), (''a'', ''q'', ''b'')]
          @ map object [(''a'', ''r'', ''b''), (''a'', ''r'', ''b''), (''c'', ''r'', ''a''), (''a'', ''q'', ''b'')]) ''c'' = 1 \<and>
   map_of (to_dict [(''a'', 0), (''c'', 1), (''b'', 2)]) ''c'' = Some 1 \<and>
   count_list (map relation [(''a'', ''r'', ''b''), (''a'', ''r'', ''b''), (''c'', ''r'', ''a''), (''a'', ''q'', ''b'')]) ''q'' = 1 \<and>
   map_of (to_dict [(''r'', 0), (''q'', 1)]) ''q'' = Some 1"
  using pruning_run by (simp add: to_dict_def)

section \<open>Evaluating a run\<close>

text \<open>The definitions a concrete run unfolds.\<close>

lemmas run_defs = KG_init_def preprocess_def load_read_process_def apply_reciprical_or_noise_def
  index_train_def index_split_def finish_def eval_data_def sequential_vocabulary_construction_def
  remove_triples_from_train_with_condition_def to_parquet_unguarded_def to_parquet_guarded_def
  concat_splits_def present_def entity_ordered_list_def relation_ordered_list_def pd_unique_def
  to_frame_def arange_def to_dict_def dataset_sanity_checking_def in_bounds_def
  numpy_data_type_changer_def cast_unsigned_def env_of_def raw_train_valid_def config_of_def
  lookup_def reciprocal_spec_def deserialize_def read_vocab_def read_idx_def read_optional_def
  raw_train_valid_test_def stored_without_valid_def

section \<open>Augmentation\<close>

text \<open>
  C5. Reciprocal augmentation is applied exactly when both the reciprocal flag and the
  evaluation flag are enabled. When applied, it is applied to the training table and to
  the validation and test tables that are present, and the noise step then works on the
  augmented training table; noise is applied to the training table only.
\<close>

theorem reciprocal_iff_both_flags_then_noise_on_train:
  assumes "apply_reciprical_or_noise e cfg (train, valid, test) = (train', valid', test')"
    and "noise = (\<lambda>rows. case add_noise_rate cfg of
                           None \<Rightarrow> rows | Some rate \<Rightarrow> add_noisy_triples e rows rate)"
  shows "(truthy (add_reciprical cfg) \<and> truthy (eval_model cfg) \<longrightarrow>
            train' = noise (create_recipriocal_triples_from_dask e train) \<and>
            valid' = map_option (create_recipriocal_triples_from_dask e) valid \<and>
            test' = map_option (create_recipriocal_triples_from_dask e) test) \<and>
         (\<not> (truthy (add_reciprical cfg) \<and> truthy (eval_model cfg)) \<longrightarrow>
            train' = noise train \<and> valid' = valid \<and> test' = test)"
  using assms by (auto simp: apply_reciprical_or_noise_def Let_def split: option.splits)

theorem reciprocal_iff_both_flags_then_noise_on_train_witness:
  "apply_reciprical_or_noise (env_of raw_train_valid Map.empty)
       ((config_of None (Some True) (Some True) None)\<lparr>add_noise_rate := Some (1 / 2)\<rparr>)
       ([(''a'', ''r'', ''b'')], Some [(''c'', ''r'', ''a'')], None)
     = ([(''a'', ''r'', ''b''), (''b'', ''r_inverse'', ''a''), (''a'', ''r'', ''b'')],
        Some [(''c'', ''r'', ''a''), (''a'', ''r_inverse'', ''c'')], None) \<and>
   apply_reciprical_or_noise (env_of raw_train_valid Map.empty)
       ((config_of None (Some True) None None)\<lparr>add_noise_rate := Some (1 / 2)\<rparr>)
       ([(''a'', ''r'', ''b'')], Some [(''c'', ''r'', ''a'')], None)
     = ([(''a'', ''r'', ''b''), (''a'', ''r'', ''b'')], Some [(''c'', ''r'', ''a'')], None)"
proof -
  let ?e = "env_of raw_train_valid Map.empty"
  let ?c1 = "(config_of None (Some True) (Some True) None)\<lparr>add_noise_rate := Some (1 / 2)\<rparr>"
  let ?c2 = "(config_of None (Some True) None None)\<lparr>add_noise_rate := Some (1 / 2)\<rparr>"
  let ?in = "([(''a'', ''r'', ''b'')], Some [(''c'', ''r'', ''a'')], None)"
  obtain t1 v1 s1 where r1: "apply_reciprical_or_noise ?e ?c1 ?in = (t1, v1, s1)"
    by (cases "apply_reciprical_or_noise ?e ?c1 ?in") auto
  obtain t2 v2 s2 where r2: "apply_reciprical_or_noise ?e ?c2 ?in = (t2, v2, s2)"
    by (cases "apply_reciprical_or_noise ?e ?c2 ?in") auto
  have f1: "truthy (add_reciprical ?c1) \<and> truthy (eval_model ?c1)" by (simp add: config_of_def)
  have f2: "\<not> (truthy (add_reciprical ?c2) \<and> truthy (eval_model ?c2))" by (simp add: config_of_def)
  from reciprocal_iff_both_flags_then_noise_on_train [OF r1 refl] f1
  have "(t1, v1, s1) = ([(''a'', ''r'', ''b''), (''b'', ''r_inverse'', ''a''), (''a'', ''r'', ''b'')],
        Some [(''c'', ''r'', ''a''), (''a'', ''r_inverse'', ''c'')], None)"
    by (simp add: config_of_def env_of_def reciprocal_spec_def)
  moreover from reciprocal_iff_both_flags_then_noise_on_train [OF r2 refl] f2
  have "(t2, v2, s2) = ([(''a'', ''r'', ''b''), (''a'', ''r'', ''b'')], Some [(''c'', ''r'', ''a'')], None)"
    by (simp add: config_of_def env_of_def reciprocal_spec_def)
  ultimately show ?thesis using r1 r2 by simp
qed


section \<open>The constructor: shape of a successful run\<close>

lemma index_split_Inr:
  assumes "index_split e path raw_name idx_name e2i r2i ne nr split fs = Inr (res, fs')"
  shows "(split = None \<and> res = None) \<or>
         (\<exists>rows ix. split = Some rows \<and> index_triples e rows e2i r2i = Inr ix \<and>
            list_all (in_bounds ne nr) ix \<and> res = Some (numpy_data_type_changer ix (max ne nr)))"
  using assms
  by (auto simp: index_split_def dataset_sanity_checking_def Let_def
      split: option.splits sum.splits if_splits)

lemma index_split_violation:
  assumes "index_triples e rows e2i r2i = Inr ix" and "\<not> list_all (in_bounds ne nr) ix"
  shows "index_split e path raw_name idx_name e2i r2i ne nr (Some rows) fs = Inl AssertionError"
  using assms by (simp add: index_split_def dataset_sanity_checking_def Let_def)

lemma preprocess_Inr:
  assumes "preprocess e cfg = Inr k"
  shows "\<exists>loaded train valid test ix e2i r2i fs vix fs1 six fs2.
     load_read_process e cfg = Inr loaded \<and>
     apply_reciprical_or_noise e cfg loaded = (train, valid, test) \<and>
     index_train e cfg train valid test = Inr (ix, e2i, r2i, fs) \<and>
     list_all (in_bounds (int (length e2i)) (int (length r2i)))
       (numpy_data_type_changer ix (max (int (length e2i)) (int (length r2i)))) \<and>
     index_split e (path_for_serialization cfg) ''/valid_df.gzip'' ''/idx_valid_df.gzip''
       e2i r2i (int (length e2i)) (int (length r2i)) valid fs = Inr (vix, fs1) \<and>
     index_split e (path_for_serialization cfg) ''/test_df.gzip'' ''/idx_test_df.gzip''
       e2i r2i (int (length e2i)) (int (length r2i)) test fs1 = Inr (six, fs2) \<and>
     k = finish cfg (int (length e2i)) (int (length r2i)) e2i r2i
           (numpy_data_type_changer ix (max (int (length e2i)) (int (length r2i)))) vix six fs2"
proof -
  from assms obtain loaded where l: "load_read_process e cfg = Inr loaded"
    by (auto simp: preprocess_def split: sum.splits)
  obtain train valid test where a: "apply_reciprical_or_noise e cfg loaded = (train, valid, test)"
    by (cases "apply_reciprical_or_noise e cfg loaded") auto
  from assms l a obtain ix e2i r2i fs where i: "index_train e cfg train valid test = Inr (ix, e2i, r2i, fs)"
    by (auto simp: preprocess_def split: sum.splits)
  let ?ne = "int (length e2i)" and ?nr = "int (length r2i)"
  let ?tr = "numpy_data_type_changer ix (max ?ne ?nr)"
  from assms l a i have c: "list_all (in_bounds ?ne ?nr) ?tr"
    by (auto simp: preprocess_def dataset_sanity_checking_def Let_def split: sum.splits if_splits)
  then have c': "dataset_sanity_checking ?tr ?ne ?nr = Inr ()"
    by (simp add: dataset_sanity_checking_def)
  from assms l a i c' obtain vix fs1 where
    v: "index_split e (path_for_serialization cfg) ''/valid_df.gzip'' ''/idx_valid_df.gzip''
       e2i r2i ?ne ?nr valid fs = Inr (vix, fs1)"
    by (auto simp: preprocess_def Let_def split: sum.splits)
  from assms l a i c' v obtain six fs2 where
    t: "index_split e (path_for_serialization cfg) ''/test_df.gzip'' ''/idx_test_df.gzip''
       e2i r2i ?ne ?nr test fs1 = Inr (six, fs2)"
    by (auto simp: preprocess_def Let_def split: sum.splits)
  from assms l a i c' v t have "k = finish cfg ?ne ?nr e2i r2i ?tr vix six fs2"
    by (simp add: preprocess_def Let_def)
  with l a i c v t show ?thesis by blast
qed

lemma finish_fields:
  "num_entities (finish cfg ne nr e2i r2i train valid test fs) = ne"
  "num_relations (finish cfg ne nr e2i r2i train valid test fs) = nr"
  "train_set (finish cfg ne nr e2i r2i train valid test fs) = train"
  "valid_set (finish cfg ne nr e2i r2i train valid test fs) = valid"
  "test_set (finish cfg ne nr e2i r2i train valid test fs) = test"
  "entity_to_idx (finish cfg ne nr e2i r2i train valid test fs) = e2i"
  "relation_to_idx (finish cfg ne nr e2i r2i train valid test fs) = r2i"
  "storage (finish cfg ne nr e2i r2i train valid test fs) = fs"
  by (simp_all add: finish_def Let_def)

lemma cast_unsigned_in_bounds:
  assumes "list_all (in_bounds ne nr) rows" and "max ne nr \<le> 2 ^ w"
  shows "cast_unsigned w rows = rows"
proof -
  have "(case r of (s, p, o') \<Rightarrow> (s mod 2 ^ w, p mod 2 ^ w, o' mod 2 ^ w)) = r"
    if "r \<in> set rows" for r
  proof -
    obtain s p o' where r: "r = (s, p, o')" by (cases r)
    from that assms(1) have "in_bounds ne nr r" by (simp add: list_all_iff)
    with r assms(2) have "0 \<le> s" "s < 2 ^ w" "0 \<le> p" "p < 2 ^ w" "0 \<le> o'" "o' < 2 ^ w"
      by (auto simp: in_bounds_def)
    then show ?thesis by (simp add: r)
  qed
  then show ?thesis unfolding cast_unsigned_def by (simp add: map_idI)
qed

lemma numpy_data_type_changer_in_bounds:
  "list_all (in_bounds ne nr) rows \<Longrightarrow> numpy_data_type_changer rows (max ne nr) = rows"
  by (simp add: numpy_data_type_changer_def cast_unsigned_in_bounds)

section \<open>Index bounds\<close>

lemma index_bound_iff: "index_bound ne nr r \<longleftrightarrow> in_bounds ne nr r"
  by (cases r) (auto simp: index_bound_def in_bounds_def)

lemma list_all_index_bound: "list_all (in_bounds ne nr) rows \<longleftrightarrow> (\<forall>r \<in> set rows. index_bound ne nr r)"
  by (simp add: list_all_iff index_bound_iff)

text \<open>
  C6 (amended). In a run that loads and indexes raw data, every triple of the training,
  validation and test tables it ends with has its subject and object in
  \<open>[0, num_entities)\<close> and its relation in \<open>[0, num_relations)\<close>. The validation and
  the test split are checked as the indexer returns them: the table kept is the
  indexer's result, unchanged, and a run whose indexer returns a validation or test
  triple out of bounds ends with an error.
\<close>

theorem raw_data_run_checks_indexed_splits:
  assumes "deserialize_flag cfg = None"
    and "load_read_process e cfg = Inr loaded"
    and "apply_reciprical_or_noise e cfg loaded = (train, valid, test)"
    and "index_train e cfg train valid test = Inr (ix, e2i, r2i, fs)"
    and "ne = int (length e2i)" and "nr = int (length r2i)"
  shows "(\<forall>k. KG_init e cfg = Inr k \<longrightarrow>
            num_entities k = ne \<and> num_relations k = nr \<and>
            (\<forall>r \<in> set (train_set k). index_bound ne nr r) \<and>
            (valid = None \<longrightarrow> valid_set k = None) \<and>
            (\<forall>rows. valid = Some rows \<longrightarrow>
               (\<exists>vx. index_triples e rows e2i r2i = Inr vx \<and> valid_set k = Some vx \<and>
                     (\<forall>r \<in> set vx. index_bound ne nr r))) \<and>
            (test = None \<longrightarrow> test_set k = None) \<and>
            (\<forall>rows. test = Some rows \<longrightarrow>
               (\<exists>tx. index_triples e rows e2i r2i = Inr tx \<and> test_set k = Some tx \<and>
                     (\<forall>r \<in> set tx. index_bound ne nr r)))) \<and>
         (\<forall>rows vx. valid = Some rows \<and> index_triples e rows e2i r2i = Inr vx \<and>
                    (\<exists>r \<in> set vx. \<not> index_bound ne nr r) \<longrightarrow>
            (\<exists>err. KG_init e cfg = Inl err)) \<and>
         (\<forall>rows tx. test = Some rows \<and> index_triples e rows e2i r2i = Inr tx \<and>
                    (\<exists>r \<in> set tx. \<not> index_bound ne nr r) \<longrightarrow>
            (\<exists>err. KG_init e cfg = Inl err))"
proof -
  have split: "(sp = None \<longrightarrow> res = None) \<and>
      (\<forall>rows. sp = Some rows \<longrightarrow>
         (\<exists>sx. index_triples e rows e2i r2i = Inr sx \<and> res = Some sx \<and>
               (\<forall>r \<in> set sx. index_bound ne nr r)))"
    if "index_split e path a b e2i r2i ne nr sp fs0 = Inr (res, fs1)"
    for path a b sp fs0 res fs1
    using index_split_Inr [OF that]
    by (auto simp: numpy_data_type_changer_in_bounds list_all_index_bound)
  have ok: "num_entities k = ne \<and> num_relations k = nr \<and>
            (\<forall>r \<in> set (train_set k). index_bound ne nr r) \<and>
            (valid = None \<longrightarrow> valid_set k = None) \<and>
            (\<forall>rows. valid = Some rows \<longrightarrow>
               (\<exists>vx. index_triples e rows e2i r2i = Inr vx \<and> valid_set k = Some vx \<and>
                     (\<forall>r \<in> set vx. index_bound ne nr r))) \<and>
            (test = None \<longrightarrow> test_set k = None) \<and>
            (\<forall>rows. test = Some rows \<longrightarrow>
               (\<exists>tx. index_triples e rows e2i r2i = Inr tx \<and> test_set k = Some tx \<and>
                     (\<forall>r \<in> set tx. index_bound ne nr r)))"
    if "KG_init e cfg = Inr k" for k
  proof -
    from that assms(1) have "preprocess e cfg = Inr k" by (simp add: KG_init_def)
    from preprocess_Inr [OF this] obtain loaded' train' valid' test' ix' e2i' r2i' fs' vix fs1 six fs2
      where l: "load_read_process e cfg = Inr loaded'"
        and a: "apply_reciprical_or_noise e cfg loaded' = (train', valid', test')"
        and i: "index_train e cfg train' valid' test' = Inr (ix', e2i', r2i', fs')"
        and c: "list_all (in_bounds (int (length e2i')) (int (length r2i')))
                 (numpy_data_type_changer ix' (max (int (length e2i')) (int (length r2i'))))"
        and v: "index_split e (path_for_serialization cfg) ''/valid_df.gzip'' ''/idx_valid_df.gzip''
                 e2i' r2i' (int (length e2i')) (int (length r2i')) valid' fs' = Inr (vix, fs1)"
        and t: "index_split e (path_for_serialization cfg) ''/test_df.gzip'' ''/idx_test_df.gzip''
                 e2i' r2i' (int (length e2i')) (int (length r2i')) test' fs1 = Inr (six, fs2)"
        and k: "k = finish cfg (int (length e2i')) (int (length r2i')) e2i' r2i'
                 (numpy_data_type_changer ix' (max (int (length e2i')) (int (length r2i')))) vix six fs2"
      by (elim exE conjE)
    from l assms(2) have "loaded' = loaded" by simp
    with a assms(3) have same: "train' = train" "valid' = valid" "test' = test" by simp_all
    with i assms(4) have eq: "ix' = ix" "e2i' = e2i" "r2i' = r2i" "fs' = fs" by simp_all
    from c have tr: "\<forall>r \<in> set (train_set k). index_bound ne nr r"
      by (simp add: k finish_fields eq assms(5,6) list_all_index_bound)
    from split [OF v [unfolded same eq, folded assms(5,6)]]
    have va: "(valid = None \<longrightarrow> valid_set k = None) \<and>
            (\<forall>rows. valid = Some rows \<longrightarrow>
               (\<exists>vx. index_triples e rows e2i r2i = Inr vx \<and> valid_set k = Some vx \<and>
                     (\<forall>r \<in> set vx. index_bound ne nr r)))"
      by (simp add: k finish_fields)
    from split [OF t [unfolded same eq, folded assms(5,6)]]
    have te: "(test = None \<longrightarrow> test_set k = None) \<and>
            (\<forall>rows. test = Some rows \<longrightarrow>
               (\<exists>tx. index_triples e rows e2i r2i = Inr tx \<and> test_set k = Some tx \<and>
                     (\<forall>r \<in> set tx. index_bound ne nr r)))"
      by (simp add: k finish_fields)
    have n: "num_entities k = ne \<and> num_relations k = nr"
      by (simp add: k finish_fields eq assms(5,6))
    note n1 = conjunct1 [OF n] and n2 = conjunct2 [OF n]
      and va1 = conjunct1 [OF va] and va2 = conjunct2 [OF va]
      and te1 = conjunct1 [OF te] and te2 = conjunct2 [OF te]
    show ?thesis by (intro conjI) (fact n1 n2 tr va1 va2 te1 te2)+
  qed
  have abort_valid: "\<exists>err. KG_init e cfg = Inl err"
    if "valid = Some rows" "index_triples e rows e2i r2i = Inr vx" "\<exists>r \<in> set vx. \<not> index_bound ne nr r"
    for rows vx
  proof (cases "KG_init e cfg")
    case (Inl err)
    then show ?thesis by simp
  next
    case (Inr k)
    from ok [OF Inr] that(1) obtain vx' where
      "index_triples e rows e2i r2i = Inr vx'" "\<forall>r \<in> set vx'. index_bound ne nr r" by auto
    with that(2,3) show ?thesis by simp
  qed
  have abort_test: "\<exists>err. KG_init e cfg = Inl err"
    if "test = Some rows" "index_triples e rows e2i r2i = Inr tx" "\<exists>r \<in> set tx. \<not> index_bound ne nr r"
    for rows tx
  proof (cases "KG_init e cfg")
    case (Inl err)
    then show ?thesis by simp
  next
    case (Inr k)
    from ok [OF Inr] that(1) obtain tx' where
      "index_triples e rows e2i r2i = Inr tx'" "\<forall>r \<in> set tx'. index_bound ne nr r" by auto
    with that(2,3) show ?thesis by simp
  qed
  have p1: "\<forall>k. KG_init e cfg = Inr k \<longrightarrow>
            num_entities k = ne \<and> num_relations k = nr \<and>
            (\<forall>r \<in> set (train_set k). index_bound ne nr r) \<and>
            (valid = None \<longrightarrow> valid_set k = None) \<and>
            (\<forall>rows. valid = Some rows \<longrightarrow>
               (\<exists>vx. index_triples e rows e2i r2i = Inr vx \<and> valid_set k = Some vx \<and>
                     (\<forall>r \<in> set vx. index_bound ne nr r))) \<and>
            (test = None \<longrightarrow> test_set k = None) \<and>
            (\<forall>rows. test = Some rows \<longrightarrow>
               (\<exists>tx. index_triples e rows e2i r2i = Inr tx \<and> test_set k = Some tx \<and>
                     (\<forall>r \<in> set tx. index_bound ne nr r)))"
    using ok by (intro allI impI)
  have p2: "\<forall>rows vx. valid = Some rows \<and> index_triples e rows e2i r2i = Inr vx \<and>
                    (\<exists>r \<in> set vx. \<not> index_bound ne nr r) \<longrightarrow>
            (\<exists>err. KG_init e cfg = Inl err)"
    using abort_valid by (intro allI impI) (elim conjE)
  have p3: "\<forall>rows tx. test = Some rows \<and> index_triples e rows e2i r2i = Inr tx \<and>
                    (\<exists>r \<in> set tx. \<not> index_bound ne nr r) \<longrightarrow>
            (\<exists>err. KG_init e cfg = Inl err)"
    using abort_test by (intro allI impI) (elim conjE)
  show ?thesis by (intro conjI) (fact p1 p2 p3)+
qed

text \<open>
  A run over raw data with a training and a validation directory, evaluation requested
  and a storage path, and the same run with a test directory as well.
\<close>

lemma run_train_valid:
  "\<exists>k. KG_init (env_of raw_train_valid Map.empty) (config_of None None (Some True) (Some ''out'')) = Inr k \<and>
       num_entities k = 3 \<and> num_relations k = 1 \<and>
       train_set k = [(0, 0, 1), (1, 0, 2)] \<and> valid_set k = Some [(2, 0, 0)] \<and> test_set k = None"
  by (simp add: run_defs Let_def upt_conv_Cons del: set_filter set_map)

lemma run_train_valid_test:
  "\<exists>k. KG_init (env_of raw_train_valid_test Map.empty) (config_of None None (Some True) (Some ''out'')) = Inr k \<and>
       num_entities k = 3 \<and> num_relations k = 1 \<and>
       train_set k = [(0, 0, 1), (1, 0, 2)] \<and> valid_set k = Some [(2, 0, 0)] \<and>
       test_set k = Some [(1, 0, 0)]"
  by (simp add: run_defs Let_def upt_conv_Cons del: set_filter set_map)

theorem raw_data_run_checks_indexed_splits_witness:
  "(case KG_init (env_of raw_train_valid Map.empty) (config_of None None (Some True) (Some ''out'')) of
      Inl err \<Rightarrow> False
    | Inr k \<Rightarrow>
        num_entities k = 3 \<and> num_relations k = 1 \<and>
        (\<forall>r \<in> set (train_set k). index_bound 3 1 r) \<and>
        valid_set k = Some [(2, 0, 0)] \<and> index_bound 3 1 (2, 0, 0) \<and> test_set k = None) \<and>
   index_triples_spec [(''c'', ''r'', ''a'')] (to_dict [(''a'', 0), (''b'', 1), (''c'', 256)])
       (to_dict [(''r'', 0)]) = Inr [(256, 0, 0)] \<and>
   \<not> index_bound 3 1 (256, 0, 0) \<and>
   (\<exists>err. KG_init (env_of raw_train_valid Map.empty)
             (config_supplied [(''a'', 0), (''b'', 1), (''c'', 256)] [(''r'', 0)]) = Inl err)"
proof -
  let ?e = "env_of raw_train_valid Map.empty"
  let ?T = "[(''a'', ''r'', ''b''), (''b'', ''r'', ''c'')]"
  let ?V = "[(''c'', ''r'', ''a'')]"
  let ?c1 = "config_of None None (Some True) (Some ''out'')"
  let ?c2 = "config_supplied [(''a'', 0), (''b'', 1), (''c'', 256)] [(''r'', 0)]"
  have d1: "deserialize_flag ?c1 = None" by (simp add: config_of_def)
  have d2: "deserialize_flag ?c2 = None" by (simp add: config_supplied_def config_of_def)
  have l1: "load_read_process ?e ?c1 = Inr (?T, Some ?V, None)"
    by (simp add: load_read_process_def config_of_def env_of_def raw_train_valid_def)
  have l2: "load_read_process ?e ?c2 = Inr (?T, Some ?V, None)"
    by (simp add: load_read_process_def config_supplied_def config_of_def env_of_def
        raw_train_valid_def)
  have a1: "apply_reciprical_or_noise ?e ?c1 (?T, Some ?V, None) = (?T, Some ?V, None)"
    by (simp add: apply_reciprical_or_noise_def config_of_def)
  have a2: "apply_reciprical_or_noise ?e ?c2 (?T, Some ?V, None) = (?T, Some ?V, None)"
    by (simp add: apply_reciprical_or_noise_def config_supplied_def config_of_def)
  have i1: "index_train ?e ?c1 ?T (Some ?V) None
      = Inr ([(0, 0, 1), (1, 0, 2)], [(''a'', 0), (''b'', 1), (''c'', 2)], [(''r'', 0)],
             [''out/entity_to_idx.gzip'' \<mapsto> Vocab_art [(''a'', 0), (''b'', 1), (''c'', 2)],
              ''out/relation_to_idx.gzip'' \<mapsto> Vocab_art [(''r'', 0)],
              ''out/idx_train_df.gzip'' \<mapsto> Idx_art [(0, 0, 1), (1, 0, 2)]])"
    by (simp add: run_defs Let_def upt_conv_Cons del: set_filter set_map)
  have i2: "index_train ?e ?c2 ?T (Some ?V) None
      = Inr ([(0, 0, 1), (1, 0, 256)], [(''a'', 0), (''b'', 1), (''c'', 256)], [(''r'', 0)],
             Map.empty)"
    by (simp add: run_defs config_supplied_def Let_def del: set_filter set_map)
  have n1: "(3 :: int) = int (length [(''a'', 0 :: int), (''b'', 1), (''c'', 2)])"
    and n2: "(3 :: int) = int (length [(''a'', 0 :: int), (''b'', 1), (''c'', 256)])"
    and m: "(1 :: int) = int (length [(''r'', 0 :: int)])"
    by simp_all
  note t1 = raw_data_run_checks_indexed_splits [OF d1 l1 a1 i1 n1 m]
  note t2 = raw_data_run_checks_indexed_splits [OF d2 l2 a2 i2 n2 m]
  from run_train_valid obtain k where k: "KG_init ?e ?c1 = Inr k" by (elim exE conjE)
  from t1 k have ok: "num_entities k = 3 \<and> num_relations k = 1 \<and>
      (\<forall>r \<in> set (train_set k). index_bound 3 1 r) \<and> (None = (None :: str_table option) \<longrightarrow> test_set k = None) \<and>
      (\<exists>vx. index_triples ?e ?V [(''a'', 0), (''b'', 1), (''c'', 2)] [(''r'', 0)] = Inr vx \<and>
            valid_set k = Some vx \<and> (\<forall>r \<in> set vx. index_bound 3 1 r))"
    by simp
  have ix: "index_triples ?e ?V [(''a'', 0), (''b'', 1), (''c'', 2)] [(''r'', 0)] = Inr [(2, 0, 0)]"
    by (simp add: env_of_def lookup_def)
  from ok ix have first: "num_entities k = 3 \<and> num_relations k = 1 \<and>
        (\<forall>r \<in> set (train_set k). index_bound 3 1 r) \<and>
        valid_set k = Some [(2, 0, 0)] \<and> index_bound 3 1 (2, 0, 0) \<and> test_set k = None"
    by auto
  have vx: "index_triples ?e ?V [(''a'', 0), (''b'', 1), (''c'', 256)] [(''r'', 0)] = Inr [(256, 0, 0)]"
    by (simp add: env_of_def lookup_def)
  have bad: "\<exists>r \<in> set [(256, 0, 0)]. \<not> index_bound 3 1 r" by (simp add: index_bound_def)
  from t2 vx bad have abort: "\<exists>err. KG_init ?e ?c2 = Inl err" by blast
  have spec: "index_triples_spec ?V (to_dict [(''a'', 0), (''b'', 1), (''c'', 256)])
       (to_dict [(''r'', 0)]) = Inr [(256, 0, 0)]"
    by (simp add: to_dict_def lookup_def)
  have nb: "\<not> index_bound 3 1 (256, 0, 0)" by (simp add: index_bound_def)
  from k first spec nb abort show ?thesis by simp
qed

text \<open>
  C6 as stated fails in two ways. In a run over raw data with supplied vocabularies
  that give \<open>a\<close> the id 256 among three entities, the indexer returns the training
  triple \<open>(256, 0, 1)\<close>; the type change before the check wraps it to \<open>(0, 0, 1)\<close>,
  the check passes and the run ends with a knowledge graph. In a run that deserializes
  a store whose training table holds \<open>(5, 0, 0)\<close> beside a vocabulary of one entity,
  no check runs and the triple is kept.
\<close>

theorem bound_violation_accepted_counterexample:
  "index_triples_spec [(''a'', ''r'', ''b''), (''b'', ''r'', ''c'')]
       (to_dict [(''a'', 256), (''b'', 1), (''c'', 2)]) (to_dict [(''r'', 0)])
     = Inr [(256, 0, 1), (1, 0, 2)] \<and>
   \<not> index_bound 3 1 (256, 0, 1) \<and>
   (case KG_init (env_of raw_train_only Map.empty)
           (config_supplied [(''a'', 256), (''b'', 1), (''c'', 2)] [(''r'', 0)]) of
      Inl err \<Rightarrow> False
    | Inr k \<Rightarrow> num_entities k = 3 \<and> num_relations k = 1 \<and>
               train_set k = [(0, 0, 1), (1, 0, 2)]) \<and>
   (case KG_init (env_of raw_train_only stored_mismatched)
           (config_of (Some ''out'') None None None) of
      Inl err \<Rightarrow> False
    | Inr k \<Rightarrow> num_entities k = 1 \<and> num_relations k = 1 \<and> train_set k = [(5, 0, 0)]) \<and>
   \<not> index_bound 1 1 (5, 0, 0)"
  by (simp add: run_defs config_supplied_def raw_train_only_def stored_mismatched_def
      index_bound_def Let_def del: set_filter set_map)

section \<open>The table behind the evaluation maps\<close>

lemma KG_init_Inr_finish:
  assumes "KG_init e cfg = Inr k"
  shows "\<exists>ne nr e2i r2i train valid test fs. k = finish cfg ne nr e2i r2i train valid test fs"
proof (cases "deserialize_flag cfg")
  case None
  with assms have "preprocess e cfg = Inr k" by (simp add: KG_init_def)
  from preprocess_Inr [OF this] show ?thesis by blast
next
  case (Some p)
  with assms obtain ne nr e2i r2i train valid test where
    "k = finish cfg ne nr e2i r2i train valid test (disk e)"
    by (auto simp: KG_init_def split: sum.splits)
  then show ?thesis by blast
qed

text \<open>
  C2 (amended). When evaluation is requested, the three evaluation maps are built from
  one table: the concatenation of the training, validation and test tables when both
  the validation and the test table are present, and the training table alone as soon
  as one of the two is absent.
\<close>

theorem evaluation_maps_from_all_or_train:
  assumes "KG_init e cfg = Inr k" and "truthy (eval_model cfg)"
  shows "(\<forall>v t. valid_set k = Some v \<and> test_set k = Some t \<longrightarrow>
            er_vocab k = Some (get_er_vocab (train_set k @ v @ t)) \<and>
            re_vocab k = Some (get_re_vocab (train_set k @ v @ t)) \<and>
            ee_vocab k = Some (get_ee_vocab (train_set k @ v @ t))) \<and>
         (valid_set k = None \<or> test_set k = None \<longrightarrow>
            er_vocab k = Some (get_er_vocab (train_set k)) \<and>
            re_vocab k = Some (get_re_vocab (train_set k)) \<and>
            ee_vocab k = Some (get_ee_vocab (train_set k)))"
proof -
  from KG_init_Inr_finish [OF assms(1)] obtain ne nr e2i r2i train valid test fs
    where k: "k = finish cfg ne nr e2i r2i train valid test fs" by blast
  show ?thesis
    using assms(2) by (auto simp: k finish_def eval_data_def Let_def split: option.splits)
qed

theorem evaluation_maps_from_all_or_train_witness:
  "(case KG_init (env_of raw_train_valid_test Map.empty) (config_of None None (Some True) (Some ''out'')) of
      Inl err \<Rightarrow> False
    | Inr k \<Rightarrow>
        valid_set k = Some [(2, 0, 0)] \<and> test_set k = Some [(1, 0, 0)] \<and>
        er_vocab k = Some (get_er_vocab ([(0, 0, 1), (1, 0, 2)] @ [(2, 0, 0)] @ [(1, 0, 0)]))) \<and>
   (case KG_init (env_of raw_train_valid Map.empty) (config_of None None (Some True) (Some ''out'')) of
      Inl err \<Rightarrow> False
    | Inr k \<Rightarrow>
        valid_set k = Some [(2, 0, 0)] \<and> test_set k = None \<and>
        er_vocab k = Some (get_er_vocab [(0, 0, 1), (1, 0, 2)]))"
proof -
  let ?cfg = "config_of None None (Some True) (Some ''out'')"
  have ev: "truthy (eval_model ?cfg)" by (simp add: config_of_def)
  from run_train_valid_test obtain k1 where
    k1: "KG_init (env_of raw_train_valid_test Map.empty) ?cfg = Inr k1"
    and f1: "train_set k1 = [(0, 0, 1), (1, 0, 2)]" "valid_set k1 = Some [(2, 0, 0)]"
      "test_set k1 = Some [(1, 0, 0)]"
    by blast
  from run_train_valid obtain k2 where
    k2: "KG_init (env_of raw_train_valid Map.empty) ?cfg = Inr k2"
    and f2: "train_set k2 = [(0, 0, 1), (1, 0, 2)]" "valid_set k2 = Some [(2, 0, 0)]"
      "test_set k2 = None"
    by blast
  from evaluation_maps_from_all_or_train [OF k1 ev] f1
  have "er_vocab k1 = Some (get_er_vocab ([(0, 0, 1), (1, 0, 2)] @ [(2, 0, 0)] @ [(1, 0, 0)]))"
    by simp
  moreover from evaluation_maps_from_all_or_train [OF k2 ev] f2
  have "er_vocab k2 = Some (get_er_vocab [(0, 0, 1), (1, 0, 2)])" by simp
  ultimately show ?thesis using k1 k2 f1 f2 by simp
qed

text \<open>
  C2 as stated fails on the run without a test directory: the validation table is
  present and holds \<open>(2, 0, 0)\<close>, yet the map from (subject, relation) to objects,
  built from the training table alone, knows no object for \<open>(2, 0)\<close>, whereas the
  map of the concatenation with the validation table gives the object 0.
\<close>

theorem present_valid_left_out_counterexample:
  "case KG_init (env_of raw_train_valid Map.empty) (config_of None None (Some True) (Some ''out'')) of
     Inl err \<Rightarrow> False
   | Inr k \<Rightarrow>
       train_set k = [(0, 0, 1), (1, 0, 2)] \<and> valid_set k = Some [(2, 0, 0)] \<and>
       test_set k = None \<and>
       map_option (\<lambda>m. m (2, 0)) (er_vocab k) = Some [] \<and>
       get_er_vocab ([(0, 0, 1), (1, 0, 2)] @ [(2, 0, 0)]) (2, 0) = [0]"
  by (simp add: run_defs Let_def upt_conv_Cons get_er_vocab_def del: set_filter set_map)


section \<open>Deserialization with an absent split\<close>

lemma read_optional_absent: "fs path = None \<Longrightarrow> read_optional fs path = Inr None"
  by (simp add: read_optional_def read_idx_def)

lemma read_optional_table: "fs path = Some (Idx_art t) \<Longrightarrow> read_optional fs path = Inr (Some t)"
  by (simp add: read_optional_def read_idx_def)

lemma read_optional_total:
  "fs path = None \<or> (\<exists>t. fs path = Some (Idx_art t)) \<Longrightarrow>
   \<exists>r. read_optional fs path = Inr r \<and> (fs path = None \<longrightarrow> r = None)"
  by (auto simp: read_optional_absent read_optional_table)

text \<open>
  C7. When the store holds the two vocabularies and the indexed training table, and the
  validation and the test file are each either missing or an indexed table, then
  deserialization returns a knowledge graph: a missing validation file leaves the
  validation split \<open>None\<close>, a missing test file leaves the test split \<open>None\<close>, no
  error reaches the caller, and the two counts are the sizes of the stored
  vocabularies whatever splits are absent.
\<close>

theorem deserialize_absent_split_is_none:
  assumes "deserialize_flag cfg = Some p"
    and "disk e (p @ ''/entity_to_idx.gzip'') = Some (Vocab_art ef)"
    and "disk e (p @ ''/relation_to_idx.gzip'') = Some (Vocab_art rf)"
    and "disk e (p @ ''/idx_train_df.gzip'') = Some (Idx_art tr)"
    and "disk e (p @ ''/idx_valid_df.gzip'') = None \<or>
         (\<exists>v. disk e (p @ ''/idx_valid_df.gzip'') = Some (Idx_art v))"
    and "disk e (p @ ''/idx_test_df.gzip'') = None \<or>
         (\<exists>t. disk e (p @ ''/idx_test_df.gzip'') = Some (Idx_art t))"
  shows "\<exists>k. KG_init e cfg = Inr k \<and>
           num_entities k = int (length ef) \<and> num_relations k = int (length rf) \<and>
           train_set k = tr \<and>
           (disk e (p @ ''/idx_valid_df.gzip'') = None \<longrightarrow> valid_set k = None) \<and>
           (disk e (p @ ''/idx_test_df.gzip'') = None \<longrightarrow> test_set k = None)"
proof -
  have "\<exists>r. read_optional (disk e) (p @ ''/idx_valid_df.gzip'') = Inr r \<and>
      (disk e (p @ ''/idx_valid_df.gzip'') = None \<longrightarrow> r = None)"
    using assms(5) by (rule read_optional_total [of "disk e" "p @ ''/idx_valid_df.gzip''"])
  then obtain v where
    v: "read_optional (disk e) (p @ ''/idx_valid_df.gzip'') = Inr v"
       "disk e (p @ ''/idx_valid_df.gzip'') = None \<longrightarrow> v = None" by (elim exE conjE)
  have "\<exists>r. read_optional (disk e) (p @ ''/idx_test_df.gzip'') = Inr r \<and>
      (disk e (p @ ''/idx_test_df.gzip'') = None \<longrightarrow> r = None)"
    using assms(6) by (rule read_optional_total [of "disk e" "p @ ''/idx_test_df.gzip''"])
  then obtain t where
    t: "read_optional (disk e) (p @ ''/idx_test_df.gzip'') = Inr t"
       "disk e (p @ ''/idx_test_df.gzip'') = None \<longrightarrow> t = None" by (elim exE conjE)
  have "deserialize (disk e) p =
      Inr (int (length ef), int (length rf), to_dict ef, to_dict rf, tr, v, t)"
    using assms(2-4) v(1) t(1) by (simp add: deserialize_def read_vocab_def read_idx_def)
  with assms(1) have "KG_init e cfg =
      Inr (finish cfg (int (length ef)) (int (length rf)) (to_dict ef) (to_dict rf) tr v t (disk e))"
    by (simp add: KG_init_def)
  with v(2) t(2) show ?thesis by (simp add: finish_fields)
qed

theorem deserialize_absent_split_is_none_witness:
  "\<exists>k. KG_init (env_of raw_train_valid stored_without_valid)
            (config_of (Some ''out'') None (Some True) None) = Inr k \<and>
       num_entities k = 3 \<and> num_relations k = 1 \<and>
       train_set k = [(0, 0, 1), (1, 0, 2)] \<and> valid_set k = None"
proof -
  let ?e = "env_of raw_train_valid stored_without_valid"
  let ?cfg = "config_of (Some ''out'') None (Some True) None"
  have flag: "deserialize_flag ?cfg = Some ''out''" by (simp add: config_of_def)
  have ef: "disk ?e (''out'' @ ''/entity_to_idx.gzip'') = Some (Vocab_art [(''a'', 0), (''b'', 1), (''c'', 2)])"
    by (simp add: env_of_def stored_without_valid_def)
  have rf: "disk ?e (''out'' @ ''/relation_to_idx.gzip'') = Some (Vocab_art [(''r'', 0)])"
    by (simp add: env_of_def stored_without_valid_def)
  have tr: "disk ?e (''out'' @ ''/idx_train_df.gzip'') = Some (Idx_art [(0, 0, 1), (1, 0, 2)])"
    by (simp add: env_of_def stored_without_valid_def)
  have va: "disk ?e (''out'' @ ''/idx_valid_df.gzip'') = None"
    by (simp add: env_of_def stored_without_valid_def)
  have te: "disk ?e (''out'' @ ''/idx_test_df.gzip'') = None \<or>
      (\<exists>t. disk ?e (''out'' @ ''/idx_test_df.gzip'') = Some (Idx_art t))"
    by (simp add: env_of_def stored_without_valid_def)
  from deserialize_absent_split_is_none [OF flag ef rf tr disjI1 [OF va] te] va
  show ?thesis by auto
qed

section \<open>Persistence without a storage path\<close>

text \<open>
  C8, at the failing input: raw data, no supplied vocabularies, no storage path. The
  vocabulary builder concatenates the path with a file name without testing it for
  \<open>None\<close>, and the run ends in \<open>TypeError\<close> instead of completing.
\<close>

theorem no_storage_path_raises:
  "KG_init (env_of raw_train_valid Map.empty) (config_of None None (Some True) None) = Inl TypeError"
  by (simp add: run_defs Let_def upt_conv_Cons del: set_filter set_map)

text \<open>
  The failure does not depend on the data: whenever the training table loads and the
  threshold, if any, is positive, a run that builds its vocabularies without a storage
  path raises.
\<close>

lemma missing_storage_path_always_raises:
  assumes "deserialize_flag cfg = None" and "path_for_serialization cfg = None"
    and "entity_to_idx_arg cfg = None" and "relation_to_idx_arg cfg = None"
    and "load_read_process e cfg = Inr loaded"
    and "min_freq_for_vocab cfg = None \<or> (\<exists>t. min_freq_for_vocab cfg = Some t \<and> 0 < t)"
  shows "KG_init e cfg = Inl TypeError"
proof -
  obtain train valid test where a: "apply_reciprical_or_noise e cfg loaded = (train, valid, test)"
    by (cases "apply_reciprical_or_noise e cfg loaded") auto
  from assms(6) obtain train' where
    "remove_triples_from_train_with_condition (min_freq_for_vocab cfg) train = Inr train'"
    by (auto simp: remove_triples_from_train_with_condition_def Let_def)
  then have "sequential_vocabulary_construction (layout e) None (min_freq_for_vocab cfg)
      train valid test (disk e) = Inl TypeError"
    by (simp add: sequential_vocabulary_construction_def to_parquet_unguarded_def Let_def)
  then have "index_train e cfg train valid test = Inl TypeError"
    using assms(2-4) by (simp add: index_train_def)
  with assms(1,5) a show ?thesis by (simp add: KG_init_def preprocess_def)
qed

text \<open>With supplied vocabularies and no storage path the run writes nothing.\<close>

lemma supplied_vocabularies_no_path_no_write:
  assumes "deserialize_flag cfg = None" and "path_for_serialization cfg = None"
    and "entity_to_idx_arg cfg = Some ef" and "KG_init e cfg = Inr k"
  shows "storage k = disk e"
proof -
  from assms(1,4) have "preprocess e cfg = Inr k" by (simp add: KG_init_def)
  from preprocess_Inr [OF this] obtain train valid test ix e2i r2i fs vix fs1 six fs2 where
    i: "index_train e cfg train valid test = Inr (ix, e2i, r2i, fs)"
    and v: "index_split e (path_for_serialization cfg) ''/valid_df.gzip'' ''/idx_valid_df.gzip''
       e2i r2i (int (length e2i)) (int (length r2i)) valid fs = Inr (vix, fs1)"
    and t: "index_split e (path_for_serialization cfg) ''/test_df.gzip'' ''/idx_test_df.gzip''
       e2i r2i (int (length e2i)) (int (length r2i)) test fs1 = Inr (six, fs2)"
    and k: "k = finish cfg (int (length e2i)) (int (length r2i)) e2i r2i
           (numpy_data_type_changer ix (max (int (length e2i)) (int (length r2i)))) vix six fs2"
    by blast
  from i assms(3) have "fs = disk e"
    by (auto simp: index_train_def Let_def split: option.splits sum.splits)
  moreover from v assms(2) have "fs1 = fs"
    by (auto simp: index_split_def to_parquet_guarded_def Let_def split: option.splits sum.splits)
  moreover from t assms(2) have "fs2 = fs1"
    by (auto simp: index_split_def to_parquet_guarded_def Let_def split: option.splits sum.splits)
  ultimately show ?thesis by (simp add: k finish_fields)
qed


section \<open>Supplied vocabularies\<close>

lemma index_train_supplied:
  assumes "entity_to_idx_arg cfg = Some ef" and "relation_to_idx_arg cfg = Some rf"
  shows "index_train e cfg train valid test =
           (case index_triples e train (to_dict ef) (to_dict rf) of
              Inl err \<Rightarrow> Inl err
            | Inr ix \<Rightarrow> Inr (ix, to_dict ef, to_dict rf, disk e))"
  using assms by (simp add: index_train_def Let_def)

text \<open>
  C10. When both vocabularies are supplied, a run over raw data never prunes: its
  outcome is the same for every value of the threshold, and the indexed training table
  it ends with is the indexer's result on the loaded and augmented training table,
  with its type changed.
\<close>

theorem supplied_vocabularies_never_prune:
  assumes "deserialize_flag cfg = None"
    and "entity_to_idx_arg cfg = Some ef" and "relation_to_idx_arg cfg = Some rf"
  shows "KG_init e (cfg\<lparr>min_freq_for_vocab := m\<rparr>) = KG_init e cfg \<and>
         (\<forall>k loaded. KG_init e cfg = Inr k \<and> load_read_process e cfg = Inr loaded \<longrightarrow>
            (\<exists>ix. index_triples e (fst (apply_reciprical_or_noise e cfg loaded))
                     (to_dict ef) (to_dict rf) = Inr ix \<and>
                  train_set k = numpy_data_type_changer ix (max (num_entities k) (num_relations k))))"
proof -
  let ?cfg' = "cfg\<lparr>min_freq_for_vocab := m\<rparr>"
  have a: "entity_to_idx_arg ?cfg' = Some ef" "relation_to_idx_arg ?cfg' = Some rf"
    using assms by simp_all
  have l: "load_read_process e ?cfg' = load_read_process e cfg"
    by (cases "data_dir cfg") (simp_all add: load_read_process_def)
  have ap: "apply_reciprical_or_noise e ?cfg' = apply_reciprical_or_noise e cfg"
    by (rule ext) (simp add: apply_reciprical_or_noise_def split: prod.splits)
  have p: "path_for_serialization ?cfg' = path_for_serialization cfg" by simp
  have f: "finish ?cfg' = finish cfg"
    by (simp add: finish_def fun_eq_iff)
  have "preprocess e ?cfg' = preprocess e cfg"
    unfolding preprocess_def index_train_supplied [OF a] index_train_supplied [OF assms(2,3)]
      l ap p f by (rule refl)
  with assms(1) have same: "KG_init e ?cfg' = KG_init e cfg" by (simp add: KG_init_def)
  have handed: "\<exists>ix. index_triples e (fst (apply_reciprical_or_noise e cfg loaded))
                     (to_dict ef) (to_dict rf) = Inr ix \<and>
                  train_set k = numpy_data_type_changer ix (max (num_entities k) (num_relations k))"
    if k: "KG_init e cfg = Inr k" and l: "load_read_process e cfg = Inr loaded" for k loaded
  proof -
    from k assms(1) have "preprocess e cfg = Inr k" by (simp add: KG_init_def)
    from preprocess_Inr [OF this] l obtain train valid test ix e2i r2i fs vix six fs2 where
      ap: "apply_reciprical_or_noise e cfg loaded = (train, valid, test)"
      and i: "index_train e cfg train valid test = Inr (ix, e2i, r2i, fs)"
      and kk: "k = finish cfg (int (length e2i)) (int (length r2i)) e2i r2i
           (numpy_data_type_changer ix (max (int (length e2i)) (int (length r2i)))) vix six fs2"
      by auto
    from i have "index_triples e train (to_dict ef) (to_dict rf) = Inr ix"
      unfolding index_train_supplied [OF assms(2,3)] by (auto split: sum.splits)
    with ap kk show ?thesis by (simp add: finish_fields)
  qed
  from same handed show ?thesis by blast
qed


theorem supplied_vocabularies_never_prune_witness:
  "KG_init (env_of raw_train_valid Map.empty)
       ((config_of None None None None)
          \<lparr>entity_to_idx_arg := Some [(''a'', 0), (''b'', 1), (''c'', 2)],
           relation_to_idx_arg := Some [(''r'', 0)], min_freq_for_vocab := Some 0\<rparr>)
     = KG_init (env_of raw_train_valid Map.empty)
         ((config_of None None None None)
            \<lparr>entity_to_idx_arg := Some [(''a'', 0), (''b'', 1), (''c'', 2)],
             relation_to_idx_arg := Some [(''r'', 0)]\<rparr>) \<and>
   (\<exists>k ix. KG_init (env_of raw_train_valid Map.empty)
         ((config_of None None None None)
            \<lparr>entity_to_idx_arg := Some [(''a'', 0), (''b'', 1), (''c'', 2)],
             relation_to_idx_arg := Some [(''r'', 0)]\<rparr>) = Inr k \<and>
      index_triples (env_of raw_train_valid Map.empty) [(''a'', ''r'', ''b''), (''b'', ''r'', ''c'')]
         (to_dict [(''a'', 0), (''b'', 1), (''c'', 2)]) (to_dict [(''r'', 0)]) = Inr ix \<and>
      train_set k = numpy_data_type_changer ix 3 \<and> train_set k = [(0, 0, 1), (1, 0, 2)])"
proof -
  let ?e = "env_of raw_train_valid Map.empty"
  let ?cfg = "(config_of None None None None)
            \<lparr>entity_to_idx_arg := Some [(''a'', 0), (''b'', 1), (''c'', 2)],
             relation_to_idx_arg := Some [(''r'', 0)]\<rparr>"
  have d: "deserialize_flag ?cfg = None" by (simp add: config_of_def)
  have ef: "entity_to_idx_arg ?cfg = Some [(''a'', 0), (''b'', 1), (''c'', 2)]" by simp
  have rf: "relation_to_idx_arg ?cfg = Some [(''r'', 0)]" by simp
  have l: "load_read_process ?e ?cfg
      = Inr ([(''a'', ''r'', ''b''), (''b'', ''r'', ''c'')], Some [(''c'', ''r'', ''a'')], None)"
    by (simp add: load_read_process_def config_of_def env_of_def raw_train_valid_def)
  have ap: "fst (apply_reciprical_or_noise ?e ?cfg
        ([(''a'', ''r'', ''b''), (''b'', ''r'', ''c'')], Some [(''c'', ''r'', ''a'')], None))
      = [(''a'', ''r'', ''b''), (''b'', ''r'', ''c'')]"
    by (simp add: apply_reciprical_or_noise_def config_of_def)
  have "\<exists>k. KG_init ?e ?cfg = Inr k \<and> num_entities k = 3 \<and> num_relations k = 1 \<and>
      train_set k = [(0, 0, 1), (1, 0, 2)]"
    by (simp add: run_defs Let_def del: set_filter set_map)
  then obtain k where k: "KG_init ?e ?cfg = Inr k" "num_entities k = 3" "num_relations k = 1"
    "train_set k = [(0, 0, 1), (1, 0, 2)]" by (elim exE conjE)
  note t = supplied_vocabularies_never_prune [OF d ef rf, of ?e "Some 0"]
  from t have same: "KG_init ?e (?cfg\<lparr>min_freq_for_vocab := Some 0\<rparr>) = KG_init ?e ?cfg"
    by (rule conjunct1)
  from t k(1) l obtain ix where
    "index_triples ?e (fst (apply_reciprical_or_noise ?e ?cfg
        ([(''a'', ''r'', ''b''), (''b'', ''r'', ''c'')], Some [(''c'', ''r'', ''a'')], None)))
       (to_dict [(''a'', 0), (''b'', 1), (''c'', 2)]) (to_dict [(''r'', 0)]) = Inr ix"
    "train_set k = numpy_data_type_changer ix (max (num_entities k) (num_relations k))"
    by blast
  with ap k have "index_triples ?e [(''a'', ''r'', ''b''), (''b'', ''r'', ''c'')]
       (to_dict [(''a'', 0), (''b'', 1), (''c'', 2)]) (to_dict [(''r'', 0)]) = Inr ix \<and>
      train_set k = numpy_data_type_changer ix 3 \<and> train_set k = [(0, 0, 1), (1, 0, 2)]"
    by simp
  with same k(1) show ?thesis by blast
qed

section \<open>Filtered ranks\<close>

lemma length_put_all: "length (put_all xs filt v) = length xs"
  unfolding put_all_def by (induction filt arbitrary: xs) auto

lemma nth_put_all:
  "c < length xs \<Longrightarrow> put_all xs filt v ! c = (if c \<in> set filt then v else xs ! c)"
  unfolding put_all_def
proof (induction filt arbitrary: xs)
  case Nil
  then show ?case by simp
next
  case (Cons i filt)
  from Cons.prems have "c < length (xs[i := v])" by simp
  from Cons.IH [OF this] Cons.prems show ?case by (auto simp: nth_list_update)
qed

lemma first_index_filter_sorted:
  assumes "sorted_wrt (\<lambda>i j. f j \<le> f i) xs" and "a \<in> set xs" and "P a"
    and "\<forall>c \<in> set xs. \<not> P c \<longrightarrow> f c < (f a :: 'b :: linorder)"
  shows "first_index a (filter P xs) = first_index a xs"
  using assms
proof (induction xs)
  case Nil
  then show ?case by simp
next
  case (Cons x xs)
  show ?case
  proof (cases "x = a")
    case True
    with Cons.prems(3) show ?thesis by simp
  next
    case False
    with Cons.prems have a: "a \<in> set xs" and le: "f a \<le> f x" by auto
    with Cons.prems(4) have px: "P x" by (auto simp: not_less)
    from Cons.prems have "first_index a (filter P xs) = first_index a xs"
      by (intro Cons.IH) (use a in auto)
    with px False show ?thesis by simp
  qed
qed

text \<open>
  Whenever the value written over the filtered scores lies below the target's score,
  the rank found is the target's position among the candidates that are kept, for
  every admissible result of the sort.
\<close>

lemma filtered_rank_position:
  fixes predictions :: "'a :: linorder list"
  assumes "target < length predictions"
    and "\<forall>i \<in> set filt. i < length predictions"
    and "low < predictions ! target"
    and "masked = (put_all predictions filt low)[target := predictions ! target]"
    and "is_sorted_desc masked (torch_sort masked)"
  shows "filtered_rank torch_sort low predictions filt target
           = Inr (first_index target (filter (kept filt target) (torch_sort masked)))"
proof -
  let ?idxs = "torch_sort masked"
  have len: "length masked = length predictions"
    by (simp add: assms(4) length_put_all)
  from assms(5) have set: "set ?idxs = {0..<length predictions}"
    and sorted: "sorted_wrt (\<lambda>i j. masked ! j \<le> masked ! i) ?idxs"
    by (simp_all add: is_sorted_desc_def len)
  from set assms(1) have mem: "target \<in> set ?idxs" by simp
  have tv: "masked ! target = predictions ! target"
    using assms(1) by (simp add: assms(4) length_put_all)
  have low: "masked ! c < masked ! target" if "c \<in> set ?idxs" "\<not> kept filt target c" for c
  proof -
    from that set have c: "c < length predictions" by simp
    from that(2) have "c \<in> set filt" "c \<noteq> target" by (auto simp: kept_def)
    with c have "masked ! c = low"
      by (simp add: assms(4) nth_put_all length_put_all)
    with tv assms(3) show ?thesis by simp
  qed
  have "first_index target (filter (kept filt target) ?idxs) = first_index target ?idxs"
    using sorted mem low by (intro first_index_filter_sorted [where f = "\<lambda>i. masked ! i"])
      (auto simp: kept_def)
  moreover have "filtered_rank torch_sort low predictions filt target
      = Inr (first_index target ?idxs)"
    using assms(1,2) mem
    by (simp add: filtered_rank_def np_where_first_def list_all_iff Let_def assms(4))
  ultimately show ?thesis by simp
qed


text \<open>The insertion sort is an admissible sort.\<close>

lemma set_insert_desc: "set (insert_desc xs i js) = insert i (set js)"
  by (induction js) auto

lemma distinct_insert_desc: "i \<notin> set js \<Longrightarrow> distinct js \<Longrightarrow> distinct (insert_desc xs i js)"
  by (induction js) (auto simp: set_insert_desc)

lemma sorted_insert_desc:
  fixes xs :: "'a :: linorder list"
  shows "sorted_wrt (\<lambda>i j. xs ! j \<le> xs ! i) js \<Longrightarrow>
         sorted_wrt (\<lambda>i j. xs ! j \<le> xs ! i) (insert_desc xs i js)"
proof (induction js)
  case Nil
  then show ?case by simp
next
  case (Cons j js)
  show ?case
  proof (cases "xs ! j \<le> xs ! i")
    case True
    with Cons.prems show ?thesis by (auto intro: order_trans)
  next
    case False
    then have "xs ! i \<le> xs ! j" by simp
    with False Cons show ?thesis by (auto simp: set_insert_desc)
  qed
qed

lemma foldr_insert_desc:
  fixes xs :: "'a :: linorder list"
  assumes "distinct l"
  shows "distinct (foldr (insert_desc xs) l []) \<and> set (foldr (insert_desc xs) l []) = set l \<and>
         sorted_wrt (\<lambda>i j. xs ! j \<le> xs ! i) (foldr (insert_desc xs) l [])"
  using assms
  by (induction l) (auto simp: set_insert_desc distinct_insert_desc sorted_insert_desc)

lemma is_sorted_desc_argsort_desc: "is_sorted_desc xs (argsort_desc xs)"
  using foldr_insert_desc [of "[0..<length xs]" xs]
  by (simp add: is_sorted_desc_def argsort_desc_def)

text \<open>
  \<open>evaluate_lp\<close> writes minus infinity, which lies below every score of the model: both
  ranks it reports are positions among the kept candidates.
\<close>

lemma evaluate_lp_ranks_filtered:
  assumes "o' < length (forward_tails s p)" and "\<forall>i \<in> set (er (s, p)). i < length (forward_tails s p)"
    and "s < length (forward_heads p o')" and "\<forall>i \<in> set (po (p, o')). i < length (forward_heads p o')"
    and "tails = (put_all (map Some (forward_tails s p)) (er (s, p)) None)[o' := Some (forward_tails s p ! o')]"
    and "heads = (put_all (map Some (forward_heads p o')) (po (p, o')) None)[s := Some (forward_heads p o' ! s)]"
    and "is_sorted_desc tails (torch_sort tails)" and "is_sorted_desc heads (torch_sort heads)"
  shows "evaluate_lp_ranks torch_sort forward_tails forward_heads er po (s, p, o')
           = Inr (position_among_kept (torch_sort heads) (po (p, o')) s,
                  position_among_kept (torch_sort tails) (er (s, p)) o')"
proof -
  have t: "filtered_rank torch_sort None (map Some (forward_tails s p)) (er (s, p)) o'
      = Inr (first_index o' (filter (kept (er (s, p)) o') (torch_sort tails)))"
    using assms(1,2,5,7)
    by (intro filtered_rank_position) (simp_all add: less_option_def)
  have h: "filtered_rank torch_sort None (map Some (forward_heads p o')) (po (p, o')) s
      = Inr (first_index s (filter (kept (po (p, o')) s) (torch_sort heads)))"
    using assms(3,4,6,8)
    by (intro filtered_rank_position) (simp_all add: less_option_def)
  show ?thesis
    by (simp add: evaluate_lp_ranks_def t h position_among_kept_def Let_def)
qed

text \<open>
  \<open>evaluate_lp_k_vs_all\<close> writes \<open>0.0\<close>: its rank is the position among the kept
  candidates when the target's score is positive.
\<close>

lemma k_vs_all_rank_filtered:
  assumes "o' < length predictions_j" and "\<forall>i \<in> set (er (s, p)). i < length predictions_j"
    and "0 < predictions_j ! o'"
    and "masked = (put_all predictions_j (er (s, p)) 0)[o' := predictions_j ! o']"
    and "is_sorted_desc masked (torch_sort masked)"
  shows "k_vs_all_rank torch_sort predictions_j er (s, p, o')
           = Inr (position_among_kept (torch_sort masked) (er (s, p)) o')"
  using assms filtered_rank_position [of o' predictions_j "er (s, p)" 0 masked torch_sort]
  by (simp add: k_vs_all_rank_def position_among_kept_def)

text \<open>
  C1, at the failing input: the scenario of the specification, query \<open>(1, 0, 2)\<close> with
  \<open>er_vocab[(1, 0)] = [2, 3]\<close>, scored by a model whose scores are negative. In
  \<open>evaluate_lp_k_vs_all\<close> the filtered candidate 3 is set to \<open>0.0\<close>, which is above the
  target's score \<open>-1\<close>: it is sorted before the target, and the reported rank is 2,
  whereas the target is first among the candidates that are kept. All scores differ,
  so the order does not depend on how the sort breaks ties.
\<close>

theorem k_vs_all_rank_counts_filtered_candidate:
  "k_vs_all_rank argsort_desc [-5, -4, -1, -2] (\<lambda>q. if q = (1, 0) then [2, 3] else []) (1, 0, 2)
     = Inr 2 \<and>
   argsort_desc ((put_all [-5, -4, -1, -2 :: real] [2, 3] 0)[2 := -1]) = [3, 2, 1, 0] \<and>
   position_among_kept [3, 2, 1, 0] [2, 3] 2 = 1"
  by (simp add: k_vs_all_rank_def filtered_rank_def put_all_def np_where_first_def
      argsort_desc_def position_among_kept_def kept_def upt_conv_Cons Let_def)

text \<open>On the same query \<open>evaluate_lp\<close> reports the tail rank 1.\<close>

lemma evaluate_lp_ranks_example:
  "evaluate_lp_ranks argsort_desc (\<lambda>s p. [-5, -4, -1, -2]) (\<lambda>p o'. [-5, -4, -1, -2])
       (\<lambda>q. if q = (1, 0) then [2, 3] else []) (\<lambda>q. if q = (0, 2) then [1] else []) (1, 0, 2)
     = Inr (3, 1)"
  by (simp add: evaluate_lp_ranks_def filtered_rank_def put_all_def np_where_first_def
      argsort_desc_def upt_conv_Cons Let_def less_eq_option_def)

section \<open>Configuration errors\<close>

text \<open>
  C9. A run whose scoring technique, after the arguments are preprocessed, is neither
  \<open>NegSample\<close> nor \<open>KvsAll\<close> ends with a configuration error whose message names the
  technique, and no event has happened by then: no data set is loaded and nothing is
  trained.
\<close>

theorem invalid_scoring_technique_fails_first:
  assumes "scoring_technique (preprocesses_input_args a) \<noteq> ''NegSample''"
    and "scoring_technique (preprocesses_input_args a) \<noteq> ''KvsAll''"
  shows "Execute_run preprocesses_input_args len_train_set available a
           = Inl (ConfigurationError
                    (''Invalid training strategy => '' @ scoring_technique (preprocesses_input_args a)), [])"
  using assms
  by (simp add: Execute_run_def Execute_init_def sanity_checking_with_arguments_def Let_def)

theorem invalid_scoring_technique_fails_first_witness:
  "Execute_run (\<lambda>a. a) 2 True
       \<lparr> model = ''DistMult'', scoring_technique = ''1vsAll'', negative_sample_ratio = 1,
         batch_size = 4, num_folds_for_cv = 0, path_dataset_folder = ''kg'' \<rparr>
     = Inl (ConfigurationError ''Invalid training strategy => 1vsAll'', [])"
proof -
  let ?a = "\<lparr> model = ''DistMult'', scoring_technique = ''1vsAll'', negative_sample_ratio = 1,
         batch_size = 4, num_folds_for_cv = 0, path_dataset_folder = ''kg'' \<rparr>"
  have n: "scoring_technique ?a \<noteq> ''NegSample''" by simp
  have k: "scoring_technique ?a \<noteq> ''KvsAll''" by simp
  from n k invalid_scoring_technique_fails_first [of "\<lambda>a. a" ?a 2 True]
  show ?thesis by simp
qed

text \<open>
  The check that is in the sources, in \<open>train_and_eval\<close>, comes after the data set is
  loaded, and only when validation and test sets are available.
\<close>

lemma train_and_eval_rejects_late:
  assumes "exec_scoring_technique ex \<noteq> ''NegSample''" and "exec_scoring_technique ex \<noteq> ''KvsAll''"
  shows "valid_test_available ex \<Longrightarrow>
           train_and_eval ex = Inl (ValueError (''Invalid argument: '' @ exec_scoring_technique ex),
                                     events ex @ [Trainer_created])"
    and "\<not> valid_test_available ex \<Longrightarrow> \<exists>ex'. train_and_eval ex = Inr ex'"
  using assms by (simp_all add: train_and_eval_def Let_def)

end
